theory Spec2Isabelle
  imports Complex_Main
begin

section \<open>Python string operations used by the agent\<close>

text \<open>
  Python strings are sequences of code points. The model uses \<^typ>\<open>string\<close>, whose
  characters are the code points 0 to 255, and gives each string operation the behaviour
  Python has on that range.
\<close>

definition isspace :: "char \<Rightarrow> bool" where
  \<comment> \<open>\<^verbatim>\<open>str.isspace\<close> on one code point below 256\<close>
  "isspace c = ((of_char c :: nat) \<in> {9, 10, 11, 12, 13, 28, 29, 30, 31, 32, 133, 160})"

definition lower_char :: "char \<Rightarrow> char" where
  \<comment> \<open>\<^verbatim>\<open>str.lower\<close> on one code point below 256: A to Z, and the
     upper-case letters 0xC0 to 0xDE without the multiplication sign 0xD7\<close>
  "lower_char c =
     (let n = (of_char c :: nat)
      in if (65 \<le> n \<and> n \<le> 90) \<or> (192 \<le> n \<and> n \<le> 222 \<and> n \<noteq> 215)
         then char_of (n + 32) else c)"

definition lower :: "string \<Rightarrow> string" where
  "lower s = map lower_char s"

definition strip :: "string \<Rightarrow> string" where
  \<comment> \<open>\<^verbatim>\<open>s.strip()\<close>: leading and trailing whitespace removed\<close>
  "strip s = rev (dropWhile isspace (rev (dropWhile isspace s)))"

fun split_from :: "string \<Rightarrow> string \<Rightarrow> string list" where
  \<comment> \<open>the scan of \<^verbatim>\<open>s.split()\<close>: the first argument is the word read so far\<close>
  "split_from w [] = (if w = [] then [] else [w])"
| "split_from w (c # cs) =
     (if isspace c then (if w = [] then split_from [] cs else w # split_from [] cs)
      else split_from (w @ [c]) cs)"

definition split :: "string \<Rightarrow> string list" where
  \<comment> \<open>\<^verbatim>\<open>s.split()\<close>: the maximal runs of non-whitespace, in order\<close>
  "split s = split_from [] s"

fun startswith :: "string \<Rightarrow> string \<Rightarrow> bool" where
  \<comment> \<open>\<^verbatim>\<open>s.startswith(p)\<close>, written \<open>startswith p s\<close>\<close>
  "startswith [] s = True"
| "startswith (a # p) [] = False"
| "startswith (a # p) (c # s) = (a = c \<and> startswith p s)"

fun contains :: "string \<Rightarrow> string \<Rightarrow> bool" where
  \<comment> \<open>\<^verbatim>\<open>p in s\<close>, written \<open>contains p s\<close>: p occurs in s as a contiguous run\<close>
  "contains p [] = (p = [])"
| "contains p (c # s) = (startswith p (c # s) \<or> contains p s)"

fun join :: "string \<Rightarrow> string list \<Rightarrow> string" where
  \<comment> \<open>\<^verbatim>\<open>sep.join(xs)\<close>\<close>
  "join sep [] = []"
| "join sep [x] = x"
| "join sep (x # y # xs) = x @ sep @ join sep (y # xs)"

function digits :: "int \<Rightarrow> string" where
  \<comment> \<open>the decimal digits of a number that is not negative\<close>
  "digits i = (if i < 10 then [char_of (48 + i)] else digits (i div 10) @ [char_of (48 + i mod 10)])"
  by pat_completeness auto
termination
  by (relation "measure nat") auto

declare digits.simps [simp del]

definition str_int :: "int \<Rightarrow> string" where
  \<comment> \<open>\<^verbatim>\<open>str(i)\<close> on an integer\<close>
  "str_int i = (if i < 0 then ''-'' @ digits (- i) else digits i)"

definition int_of_float :: "real \<Rightarrow> int" where
  \<comment> \<open>\<^verbatim>\<open>int(x)\<close> on a float: truncation towards zero\<close>
  "int_of_float x = (if 0 \<le> x then \<lfloor>x\<rfloor> else \<lceil>x\<rceil>)"

definition isascii :: "string \<Rightarrow> bool" where
  "isascii s = (\<forall>c \<in> set s. (of_char c :: nat) < 128)"

section \<open>config.py\<close>

record config =
  available_tools :: "string list"
  blocked_commands :: "string list"

definition AVAILABLE_TOOLS :: "string list" where
  "AVAILABLE_TOOLS =
     [''git'', ''curl'', ''wget'', ''ssh'', ''scp'', ''rsync'',
      ''docker'', ''kubectl'', ''terraform'', ''ansible'',
      ''grep'', ''awk'', ''sed'', ''find'', ''cat'', ''ls'', ''pwd'']"

definition BLOCKED_COMMANDS :: "string list" where
  "BLOCKED_COMMANDS =
     [''rm'', ''rmdir'', ''delete'', ''format'', ''fdisk'',
      ''mkfs'', ''mount'', ''umount'', ''reboot'', ''shutdown'',
      ''systemctl'', ''service'', ''kill'', ''killall'']"

definition default_config :: config where
  "default_config = \<lparr>available_tools = AVAILABLE_TOOLS, blocked_commands = BLOCKED_COMMANDS\<rparr>"

section \<open>models.py\<close>

datatype AuthMethod = SSH_KEY | API_TOKEN

fun AuthMethod_value :: "AuthMethod \<Rightarrow> string" where
  "AuthMethod_value SSH_KEY = ''ssh_key''"
| "AuthMethod_value API_TOKEN = ''api_token''"

datatype CommandStatus = PENDING | RUNNING | COMPLETED | FAILED | TIMEOUT

fun CommandStatus_value :: "CommandStatus \<Rightarrow> string" where
  "CommandStatus_value PENDING = ''pending''"
| "CommandStatus_value RUNNING = ''running''"
| "CommandStatus_value COMPLETED = ''completed''"
| "CommandStatus_value FAILED = ''failed''"
| "CommandStatus_value TIMEOUT = ''timeout''"

text \<open>
  A \<^verbatim>\<open>datetime\<close> is its number of microseconds since the epoch; a float of
  \<^verbatim>\<open>time.time()\<close> is a real number of seconds.
\<close>

type_synonym datetime = int

definition hours :: "int \<Rightarrow> int" where
  \<comment> \<open>\<^verbatim>\<open>timedelta(hours=h)\<close> in microseconds\<close>
  "hours h = h * 3600000000"

record AuthRequest =
  req_method :: AuthMethod
  credentials :: string
  req_username :: "string option"

record AuthResponse =
  success :: bool
  resp_session_id :: "string option"
  message :: string
  resp_expires_at :: "datetime option"

record CommandRequest =
  session_id :: string
  command :: string
  args :: "string list"
  environment :: "(string \<times> string) list"
  working_directory :: "string option"
  timeout :: "int option"

record ResourceUsage =
  cpu_time :: real
  memory_peak :: string
  disk_io :: string

record CommandResponse =
  command_id :: string
  status :: CommandStatus
  stdout :: string
  stderr :: string
  exit_code :: "int option"
  execution_time :: "real option"
  timestamp :: datetime
  resource_usage :: "ResourceUsage option"

record ResourceLimits =
  max_execution_time :: int
  max_output_size :: int
  max_memory :: string
  max_cpu :: string

record SandboxInfo =
  sb_session_id :: string
  sb_working_directory :: string
  environment_variables :: "(string \<times> string) list"
  sb_available_tools :: "string list"
  resource_limits :: ResourceLimits
  sb_created_at :: datetime

text \<open>The session dictionary that \<^verbatim>\<open>AuthManager.authenticate\<close> stores.\<close>

record session =
  username :: string
  auth_method :: AuthMethod
  created_at :: datetime
  expires_at :: datetime
  last_activity :: datetime

section \<open>The state of the process and of its environment\<close>

text \<open>The values of the keyword arguments of a log call.\<close>

datatype log_value =
  VNone | VStr string | VBool bool | VInt int | VFloat real | VList "string list"

record log_entry =
  log_timestamp :: datetime
  level :: string
  event :: string
  log_fields :: "(string \<times> log_value) list"

text \<open>
  The three module-level singletons (\<^verbatim>\<open>auth_manager\<close>, \<^verbatim>\<open>sandbox_manager\<close>,
  \<^verbatim>\<open>logger\<close>) and what they reach outside the process are one record:
  \<^item> \<open>active_sessions\<close>, \<open>api_tokens\<close>, \<open>ssh_keys\<close>: the fields of \<^verbatim>\<open>AuthManager\<close>;
    the two credential dictionaries are association lists in insertion order, the order
    Python iterates them in;
  \<^item> \<open>active_sandboxes\<close>, \<open>command_history\<close>: the fields of \<^verbatim>\<open>SandboxManager\<close>;
  \<^item> \<open>json_logs\<close>: the in-memory log of \<^verbatim>\<open>StructuredLogger\<close>;
  \<^item> \<open>dirs\<close>: the directories that exist on disk;
  \<^item> \<open>utc_clock\<close>, \<open>wall_clock\<close>, \<open>token_source\<close>, \<open>rmtree_error\<close>: what the
    environment will answer to the n-th call of \<^verbatim>\<open>datetime.utcnow()\<close>,
    \<^verbatim>\<open>time.time()\<close>, \<^verbatim>\<open>secrets.token_urlsafe(32)\<close> and \<^verbatim>\<open>shutil.rmtree\<close>
    (\<open>Some msg\<close>: the call raises an exception whose text is \<open>msg\<close>), each with the
    number of calls made so far;
  \<^item> \<open>sim_calls\<close>: a ghost field, the calls of \<^verbatim>\<open>_simulate_devops_command\<close> made
    so far, oldest first.
\<close>

record world =
  active_sessions :: "string \<rightharpoonup> session"
  api_tokens :: "(string \<times> string) list"
  ssh_keys :: "(string \<times> string) list"
  active_sandboxes :: "string \<rightharpoonup> SandboxInfo"
  command_history :: "string \<rightharpoonup> CommandResponse list"
  json_logs :: "log_entry list"
  dirs :: "string set"
  utc_clock :: "nat \<Rightarrow> datetime"
  utc_reads :: nat
  wall_clock :: "nat \<Rightarrow> real"
  wall_reads :: nat
  token_source :: "nat \<Rightarrow> string"
  token_reads :: nat
  rmtree_error :: "nat \<Rightarrow> string option"
  rmtree_calls :: nat
  sim_calls :: "(string \<times> string list) list"

definition utcnow :: "world \<Rightarrow> datetime \<times> world" where
  "utcnow w = (utc_clock w (utc_reads w), w\<lparr>utc_reads := Suc (utc_reads w)\<rparr>)"

definition time_time :: "world \<Rightarrow> real \<times> world" where
  "time_time w = (wall_clock w (wall_reads w), w\<lparr>wall_reads := Suc (wall_reads w)\<rparr>)"

definition token_urlsafe :: "world \<Rightarrow> string \<times> world" where
  "token_urlsafe w = (token_source w (token_reads w), w\<lparr>token_reads := Suc (token_reads w)\<rparr>)"

section \<open>logger.py\<close>

definition upper_ascii :: "string \<Rightarrow> string" where
  \<comment> \<open>\<^verbatim>\<open>level.upper()\<close>; the levels passed are the ASCII names of the log functions\<close>
  "upper_ascii s =
     map (\<lambda>c. let n = (of_char c :: nat) in if 97 \<le> n \<and> n \<le> 122 then char_of (n - 32) else c) s"

definition log_structured :: "string \<Rightarrow> string \<Rightarrow> (string \<times> log_value) list \<Rightarrow> world \<Rightarrow> world" where
  \<comment> \<open>the entry is kept in memory; writing it to the console and the log file is outside
     the model\<close>
  "log_structured lvl ev kwargs w =
     (let (now, w1) = utcnow w;
          entry = \<lparr>log_timestamp = now, level = upper_ascii lvl, event = ev, log_fields = kwargs\<rparr>;
          logs = json_logs w1 @ [entry]
      in w1\<lparr>json_logs := (if length logs > 1000 then drop (length logs - 1000) logs else logs)\<rparr>)"

definition log_error :: "string \<Rightarrow> (string \<times> log_value) list \<Rightarrow> world \<Rightarrow> world" where
  \<comment> \<open>\<^verbatim>\<open>StructuredLogger.error\<close>\<close>
  "log_error msg kwargs w = log_structured ''error'' msg kwargs w"

definition audit :: "string \<Rightarrow> string \<Rightarrow> (string \<times> log_value) list \<Rightarrow> world \<Rightarrow> world" where
  "audit ev sid kwargs w =
     log_structured ''info'' (''AUDIT: '' @ ev)
       ([(''session_id'', VStr sid), (''audit'', VBool True)] @ kwargs) w"

section \<open>auth.py\<close>

datatype py_error = TypeError string | FileNotFoundError string

fun error_text :: "py_error \<Rightarrow> string" where
  \<comment> \<open>\<^verbatim>\<open>str(e)\<close>\<close>
  "error_text (TypeError msg) = msg"
| "error_text (FileNotFoundError msg) = msg"

definition AUTH_TOKEN_SECRET :: string where
  "AUTH_TOKEN_SECRET = ''devops-agent-secret-key-2025''"

definition load_api_tokens :: "(string \<Rightarrow> string) \<Rightarrow> string \<Rightarrow> (string \<times> string) list" where
  \<comment> \<open>\<^verbatim>\<open>_load_api_tokens\<close>; the first argument stands for
     \<^verbatim>\<open>hashlib.sha256(s.encode()).hexdigest()\<close>, which is library code\<close>
  "load_api_tokens sha256_hexdigest secret =
     [(''admin'', take 32 (sha256_hexdigest (''admin-'' @ secret))),
      (''devops'', take 32 (sha256_hexdigest (''devops-'' @ secret))),
      (''user'', take 32 (sha256_hexdigest (''user-'' @ secret)))]"

definition default_api_tokens :: "(string \<times> string) list" where
  \<comment> \<open>the table \<^verbatim>\<open>_load_api_tokens\<close> builds for the default secret
     \<open>AUTH_TOKEN_SECRET\<close>, with the digests SHA-256 gives\<close>
  "default_api_tokens =
     [(''admin'', ''d1405116107df3798451094ebb21052c''),
      (''devops'', ''77c1b3d8c275f2d774a60ea912080c04''),
      (''user'', ''1da8c4916636af0ab976cb4728491094'')]"

definition default_ssh_keys :: "(string \<times> string) list" where
  \<comment> \<open>what \<^verbatim>\<open>_load_ssh_keys\<close> returns when there is no \<^verbatim>\<open>authorized_keys\<close> file\<close>
  "default_ssh_keys = [(''demo'', ''ssh-rsa AAAAB3NzaC1yc2EAAAADAQABAAABgQC... demo@localhost'')]"

definition compare_digest :: "string \<Rightarrow> string \<Rightarrow> py_error + bool" where
  \<comment> \<open>\<^verbatim>\<open>secrets.compare_digest\<close> on two \<^verbatim>\<open>str\<close>: it raises on a non-ASCII argument\<close>
  "compare_digest a b =
     (if isascii a \<and> isascii b then Inr (a = b)
      else Inl (TypeError ''comparing strings with non-ASCII characters is not supported''))"

fun validate_ssh_key_loop :: "(string \<times> string) list \<Rightarrow> string \<Rightarrow> string option" where
  "validate_ssh_key_loop [] provided_key = None"
| "validate_ssh_key_loop ((u, stored_key) # rest) provided_key =
     (if provided_key = stored_key \<or> contains provided_key stored_key then Some u
      else validate_ssh_key_loop rest provided_key)"

definition validate_ssh_key :: "world \<Rightarrow> string \<Rightarrow> string option" where
  "validate_ssh_key w provided_key = validate_ssh_key_loop (ssh_keys w) (strip provided_key)"

fun validate_api_token_loop :: "(string \<times> string) list \<Rightarrow> string \<Rightarrow> py_error + string option" where
  "validate_api_token_loop [] token = Inr None"
| "validate_api_token_loop ((u, stored_token) # rest) token =
     (case compare_digest token stored_token of
        Inl e \<Rightarrow> Inl e
      | Inr True \<Rightarrow> Inr (Some u)
      | Inr False \<Rightarrow> validate_api_token_loop rest token)"

definition validate_api_token :: "world \<Rightarrow> string \<Rightarrow> py_error + string option" where
  "validate_api_token w token = validate_api_token_loop (api_tokens w) token"

definition opt_str :: "string option \<Rightarrow> log_value" where
  "opt_str x = (case x of None \<Rightarrow> VNone | Some s \<Rightarrow> VStr s)"

definition create_session :: "AuthRequest \<Rightarrow> string \<Rightarrow> world \<Rightarrow> AuthResponse \<times> world" where
  \<comment> \<open>the part of \<^verbatim>\<open>authenticate\<close> after the credential check has given a user\<close>
  "create_session auth_request user w =
     (let (sid, w1) = token_urlsafe w;
          (now1, w2) = utcnow w1;
          expires = now1 + hours 24;
          (now2, w3) = utcnow w2;
          (now3, w4) = utcnow w3;
          w5 = w4\<lparr>active_sessions := (active_sessions w4)(sid \<mapsto>
                  \<lparr>username = user, auth_method = req_method auth_request, created_at = now2,
                   expires_at = expires, last_activity = now3\<rparr>)\<rparr>;
          w6 = audit ''authentication_success'' sid
                 [(''method'', VStr (AuthMethod_value (req_method auth_request))),
                  (''username'', VStr user)] w5
      in (\<lparr>success = True, resp_session_id = Some sid,
           message = ''Authenticated as '' @ user, resp_expires_at = Some expires\<rparr>, w6))"

definition check_credentials :: "AuthRequest \<Rightarrow> world \<Rightarrow> py_error + string option" where
  \<comment> \<open>the first statement of \<^verbatim>\<open>authenticate\<close>: the user the credential belongs to\<close>
  "check_credentials auth_request w =
     (case req_method auth_request of
        SSH_KEY \<Rightarrow> Inr (validate_ssh_key w (credentials auth_request))
      | API_TOKEN \<Rightarrow> validate_api_token w (credentials auth_request))"

definition authenticate :: "AuthRequest \<Rightarrow> world \<Rightarrow> (py_error + AuthResponse) \<times> world" where
  \<comment> \<open>\<^verbatim>\<open>if not username\<close> holds for \<^verbatim>\<open>None\<close> and for the empty string\<close>
  "authenticate auth_request w =
     (case check_credentials auth_request w of
        Inl e \<Rightarrow> (Inl e, w)
      | Inr found \<Rightarrow>
          (if found = None \<or> found = Some []
           then (Inr \<lparr>success = False, resp_session_id = None,
                      message = ''Invalid credentials'', resp_expires_at = None\<rparr>,
                 audit ''authentication_failed'' ''none''
                   [(''method'', VStr (AuthMethod_value (req_method auth_request))),
                    (''username'', opt_str (req_username auth_request))] w)
           else (case create_session auth_request (the found) w of
                   (response, w') \<Rightarrow> (Inr response, w'))))"

definition authenticated :: "AuthRequest \<Rightarrow> world \<Rightarrow> bool" where
  \<comment> \<open>\<^verbatim>\<open>authenticate\<close> returns a session\<close>
  "authenticated auth_request w =
     (case fst (authenticate auth_request w) of Inl e \<Rightarrow> False | Inr response \<Rightarrow> success response)"

definition validate_session :: "string \<Rightarrow> world \<Rightarrow> session option \<times> world" where
  "validate_session sid w =
     (case active_sessions w sid of
        None \<Rightarrow> (None, w)
      | Some sess \<Rightarrow>
          (let (now, w1) = utcnow w
           in if now > expires_at sess
              then (None, audit ''session_expired'' sid []
                            (w1\<lparr>active_sessions := (active_sessions w1)(sid := None)\<rparr>))
              else (let (now2, w2) = utcnow w1;
                        sess' = sess\<lparr>last_activity := now2\<rparr>
                    in (Some sess', w2\<lparr>active_sessions := (active_sessions w2)(sid \<mapsto> sess')\<rparr>))))"

definition logout :: "string \<Rightarrow> world \<Rightarrow> bool \<times> world" where
  "logout sid w =
     (case active_sessions w sid of
        Some sess \<Rightarrow>
          (True, audit ''logout'' sid [(''username'', VStr (username sess))]
                   (w\<lparr>active_sessions := (active_sessions w)(sid := None)\<rparr>))
      | None \<Rightarrow> (False, w))"

section \<open>sandbox.py: the policy check and the simulated tools\<close>

definition dangerous_patterns :: "string list" where
  "dangerous_patterns = [''>'', ''>>'', ''|'', ''&'', '';'', ''$('', ''`'']"

definition is_command_safe :: "config \<Rightarrow> string \<Rightarrow> bool \<times> string" where
  "is_command_safe cfg cmd =
     (case split (strip cmd) of
        [] \<Rightarrow> (False, ''Empty command'')
      | part0 # _ \<Rightarrow>
          (let base_command = lower part0
           in if base_command \<in> set (blocked_commands cfg)
              then (False, ''Command '' @ [CHR 0x27] @ base_command @ [CHR 0x27]
                           @ '' is blocked for security reasons'')
              else if base_command \<notin> set (available_tools cfg)
              then (False, ''Command '' @ [CHR 0x27] @ base_command @ [CHR 0x27]
                           @ '' is not available in sandbox'')
              else (case find (\<lambda>pattern. contains pattern cmd) dangerous_patterns of
                      Some pattern \<Rightarrow>
                        (False, ''Command contains potentially dangerous pattern: '' @ pattern)
                    | None \<Rightarrow> (True, ''Command is safe''))))"

definition simulate_devops_command :: "string \<Rightarrow> string list \<Rightarrow> string \<times> string \<times> int" where
  "simulate_devops_command cmd cmd_args =
     (let cmd_lower = lower cmd
      in if cmd_lower = ''git'' then
           (if cmd_args = [] then (''git version 2.34.1'', '''', 0)
            else if hd cmd_args = ''status''
              then (''On branch main'' @ [CHR 0x0A] @ ''nothing to commit, working tree clean'', '''', 0)
            else if hd cmd_args = ''clone''
              then (''Cloning into '' @ [CHR 0x27]
                      @ (if length cmd_args > 1 then cmd_args ! 1 else ''repository'')
                      @ [CHR 0x27] @ ''...'' @ [CHR 0x0A] @ ''Done.'', '''', 0)
            else if hd cmd_args = ''pull'' then (''Already up to date.'', '''', 0)
            else (''Simulated: git '' @ join '' '' cmd_args, '''', 0))
         else if cmd_lower = ''docker'' then
           (if cmd_args = [] then (''Docker version 20.10.17'', '''', 0)
            else if hd cmd_args = ''ps''
              then (''CONTAINER ID   IMAGE     COMMAND   CREATED   STATUS    PORTS     NAMES'', '''', 0)
            else if hd cmd_args = ''images''
              then (''REPOSITORY    TAG       IMAGE ID       CREATED       SIZE'', '''', 0)
            else (''Simulated: docker '' @ join '' '' cmd_args, '''', 0))
         else if cmd_lower = ''kubectl'' then
           (if cmd_args = [] then (''kubectl controls the Kubernetes cluster manager.'', '''', 0)
            else if hd cmd_args = ''get'' then (''No resources found in default namespace.'', '''', 0)
            else (''Simulated: kubectl '' @ join '' '' cmd_args, '''', 0))
         else if cmd_lower = ''terraform'' then
           (if cmd_args = [] then (''Terraform v1.0.0'', '''', 0)
            else if hd cmd_args = ''plan'' then (''No changes. Infrastructure is up-to-date.'', '''', 0)
            else if hd cmd_args = ''apply''
              then (''Apply complete! Resources: 0 added, 0 changed, 0 destroyed.'', '''', 0)
            else (''Simulated: terraform '' @ join '' '' cmd_args, '''', 0))
         else if cmd_lower = ''curl'' then
           (let url = (if cmd_args \<noteq> [] then hd cmd_args else ''http://example.com'')
            in (''Simulated HTTP GET to '' @ url @ [CHR 0x0A] @ ''Status: 200 OK''
                  @ [CHR 0x0A] @ ''Content: Sample response'', '''', 0))
         else if cmd_lower \<in> set [''ls'', ''pwd'', ''cat'', ''grep'', ''find''] then
           (''Simulated: '' @ cmd @ '' '' @ join '' '' cmd_args, '''', 0)
         else (''Simulated: '' @ cmd @ '' '' @ join '' '' cmd_args, '''', 0))"

section \<open>sandbox.py: the sandbox manager\<close>

definition MAX_EXECUTION_TIME :: int where
  "MAX_EXECUTION_TIME = 30"

definition MAX_OUTPUT_SIZE :: int where
  "MAX_OUTPUT_SIZE = 1048576"

text \<open>
  A \<^verbatim>\<open>pathlib\<close> path on a POSIX system is its root (empty for a relative path) and its
  parts: the pieces between slashes, without the empty ones and without \<^verbatim>\<open>.\<close>.
\<close>

type_synonym path = "string \<times> string list"

fun split_sep :: "string \<Rightarrow> string \<Rightarrow> string list" where
  \<comment> \<open>the scan of \<^verbatim>\<open>s.split('/')\<close>: the first argument is the piece read so far\<close>
  "split_sep piece [] = [piece]"
| "split_sep piece (c # cs) =
     (if c = CHR ''/'' then piece # split_sep [] cs else split_sep (piece @ [c]) cs)"

definition parts :: "string \<Rightarrow> string list" where
  "parts s = filter (\<lambda>piece. piece \<noteq> [] \<and> piece \<noteq> ''.'') (split_sep [] s)"

definition root_of :: "string \<Rightarrow> string" where
  \<comment> \<open>one leading slash, or three and more, give the root \<^verbatim>\<open>/\<close>; exactly two give \<^verbatim>\<open>//\<close>\<close>
  "root_of s =
     (if startswith ''//'' s \<and> \<not> startswith ''///'' s then ''//''
      else if startswith ''/'' s then ''/'' else [])"

definition Path :: "string \<Rightarrow> path" where
  "Path s = (root_of s, parts s)"

definition str_path :: "path \<Rightarrow> string" where
  \<comment> \<open>\<^verbatim>\<open>str(p)\<close>\<close>
  "str_path p = (if fst p = [] \<and> snd p = [] then ''.'' else fst p @ join ''/'' (snd p))"

definition joinpath :: "path \<Rightarrow> string \<Rightarrow> path" where
  \<comment> \<open>\<^verbatim>\<open>p / name\<close>: a name with a root replaces \<open>p\<close>\<close>
  "joinpath p name = (if root_of name \<noteq> [] then Path name else (fst p, snd p @ parts name))"

definition parent :: "path \<Rightarrow> path" where
  \<comment> \<open>\<^verbatim>\<open>p.parent\<close>\<close>
  "parent p = (fst p, butlast (snd p))"

definition SANDBOX_ROOT :: path where
  "SANDBOX_ROOT = Path ''./sandbox''"

definition file_name :: "string \<Rightarrow> bool" where
  \<comment> \<open>a name of one part, as every token of \<^verbatim>\<open>secrets.token_urlsafe\<close> is\<close>
  "file_name s = (s \<noteq> [] \<and> s \<noteq> ''.'' \<and> CHR ''/'' \<notin> set s)"

definition sandbox_dir_of :: "string \<Rightarrow> string" where
  \<comment> \<open>\<^verbatim>\<open>str(SANDBOX_ROOT / session_id)\<close>\<close>
  "sandbox_dir_of sid = str_path (joinpath SANDBOX_ROOT sid)"

definition mkdir :: "path \<Rightarrow> world \<Rightarrow> (py_error + unit) \<times> world" where
  \<comment> \<open>\<^verbatim>\<open>p.mkdir(exist_ok=True)\<close>: nothing is done for a directory that exists, and
     \<^verbatim>\<open>FileNotFoundError\<close> is raised when the parent does not exist; the directories of
     the model are named by the path as written, and other faults of the file system are
     outside the model\<close>
  "mkdir p w =
     (if str_path p \<in> dirs w then (Inr (), w)
      else if str_path (parent p) \<in> dirs w then (Inr (), w\<lparr>dirs := insert (str_path p) (dirs w)\<rparr>)
      else (Inl (FileNotFoundError (''[Errno 2] No such file or directory: '' @ [CHR 0x27]
                                     @ str_path p @ [CHR 0x27])), w))"

definition rmtree :: "string \<Rightarrow> world \<Rightarrow> (string + unit) \<times> world" where
  \<comment> \<open>\<^verbatim>\<open>shutil.rmtree(p)\<close>: it removes the directory and all below it, or raises
     (\<open>Inl\<close> of the exception's text); the root of the tree is the last thing it removes,
     so a failing call leaves the root in place, and the model leaves the tree as it was\<close>
  "rmtree p w =
     (let w1 = w\<lparr>rmtree_calls := Suc (rmtree_calls w)\<rparr>
      in case rmtree_error w (rmtree_calls w) of
           Some msg \<Rightarrow> (Inl msg, w1)
         | None \<Rightarrow>
             (Inr (), w1\<lparr>dirs := Set.filter (\<lambda>q. \<not> (q = p \<or> startswith (p @ ''/'') q)) (dirs w1)\<rparr>))"

definition make_dirs :: "string \<Rightarrow> world \<Rightarrow> (py_error + unit) \<times> world" where
  \<comment> \<open>the four \<^verbatim>\<open>mkdir\<close> calls of \<^verbatim>\<open>create_sandbox\<close>; the first that raises ends them\<close>
  "make_dirs sid w =
     (let sandbox_dir = joinpath SANDBOX_ROOT sid
      in case mkdir sandbox_dir w of
           (Inl e, w1) \<Rightarrow> (Inl e, w1)
         | (Inr _, w1) \<Rightarrow>
        (case mkdir (joinpath sandbox_dir ''home'') w1 of
           (Inl e, w2) \<Rightarrow> (Inl e, w2)
         | (Inr _, w2) \<Rightarrow>
        (case mkdir (joinpath sandbox_dir ''tmp'') w2 of
           (Inl e, w3) \<Rightarrow> (Inl e, w3)
         | (Inr _, w3) \<Rightarrow> mkdir (joinpath sandbox_dir ''workspace'') w3)))"

definition register_sandbox :: "config \<Rightarrow> string \<Rightarrow> string \<Rightarrow> world \<Rightarrow> SandboxInfo \<times> world" where
  \<comment> \<open>the rest of \<^verbatim>\<open>create_sandbox\<close>, once the directories are there\<close>
  "register_sandbox cfg sid user w =
     (let sandbox_dir = joinpath SANDBOX_ROOT sid;
          env_vars =
            [(''HOME'', str_path (joinpath sandbox_dir ''home'')),
             (''TMPDIR'', str_path (joinpath sandbox_dir ''tmp'')),
             (''USER'', user),
             (''PWD'', str_path (joinpath sandbox_dir ''workspace'')),
             (''PATH'', ''/usr/local/bin:/usr/bin:/bin''),
             (''SHELL'', ''/bin/bash''),
             (''TERM'', ''xterm-256color'')];
          (now, w1) = utcnow w;
          sandbox_info =
            \<lparr>sb_session_id = sid,
             sb_working_directory = str_path (joinpath sandbox_dir ''workspace''),
             environment_variables = env_vars,
             sb_available_tools = available_tools cfg,
             resource_limits =
               \<lparr>max_execution_time = MAX_EXECUTION_TIME, max_output_size = MAX_OUTPUT_SIZE,
                max_memory = ''512MB'', max_cpu = ''50%''\<rparr>,
             sb_created_at = now\<rparr>;
          w2 = w1\<lparr>active_sandboxes := (active_sandboxes w1)(sid \<mapsto> sandbox_info),
                   command_history := (command_history w1)(sid \<mapsto> [])\<rparr>;
          w3 = audit ''sandbox_created'' sid [(''sandbox_dir'', VStr (str_path sandbox_dir))] w2
      in (sandbox_info, w3))"

definition create_sandbox ::
    "config \<Rightarrow> string \<Rightarrow> string \<Rightarrow> world \<Rightarrow> (py_error + SandboxInfo) \<times> world" where
  "create_sandbox cfg sid user w =
     (case make_dirs sid w of
        (Inl e, w1) \<Rightarrow> (Inl e, w1)
      | (Inr _, w1) \<Rightarrow>
          (case register_sandbox cfg sid user w1 of
             (sandbox_info, w2) \<Rightarrow> (Inr sandbox_info, w2)))"

definition get_sandbox :: "string \<Rightarrow> world \<Rightarrow> SandboxInfo option" where
  "get_sandbox sid w = active_sandboxes w sid"

definition store_history :: "string \<Rightarrow> CommandResponse \<Rightarrow> world \<Rightarrow> world" where
  \<comment> \<open>the block of \<^verbatim>\<open>execute_command\<close> under the comment "Store command history"\<close>
  "store_history sid response w =
     (case command_history w sid of
        None \<Rightarrow> w
      | Some h \<Rightarrow>
          (let h1 = h @ [response]
           in w\<lparr>command_history := (command_history w)(sid \<mapsto>
                   (if length h1 > 100 then drop (length h1 - 100) h1 else h1))\<rparr>))"

definition run_command :: "string \<Rightarrow> string \<Rightarrow> real \<Rightarrow> CommandRequest \<Rightarrow> world \<Rightarrow> CommandResponse \<times> world" where
  \<comment> \<open>the \<^verbatim>\<open>try\<close> block of \<^verbatim>\<open>execute_command\<close>; nothing in it raises in the model
     (the simulation is total on strings), so its \<^verbatim>\<open>except\<close> handler has no branch\<close>
  "run_command sid cid start_time request w =
     (let (out, err, code) = simulate_devops_command (command request) (args request);
          w1 = w\<lparr>sim_calls := sim_calls w @ [(command request, args request)]\<rparr>;
          (t, w2) = time_time w1;
          elapsed = t - start_time;
          st = (if code = 0 then COMPLETED else FAILED);
          (now, w3) = utcnow w2;
          response =
            \<lparr>command_id = cid, status = st, stdout = out, stderr = err, exit_code = Some code,
             execution_time = Some elapsed, timestamp = now,
             resource_usage =
               Some \<lparr>cpu_time = elapsed, memory_peak = ''< 1MB'', disk_io = ''minimal''\<rparr>\<rparr>;
          w4 = store_history sid response w3;
          w5 = audit ''command_execution_completed'' sid
                 [(''command_id'', VStr cid), (''status'', VStr (CommandStatus_value st)),
                  (''exit_code'', VInt code), (''execution_time'', VFloat elapsed)] w4
      in (response, w5))"

definition execute_command :: "config \<Rightarrow> string \<Rightarrow> CommandRequest \<Rightarrow> world \<Rightarrow> CommandResponse \<times> world" where
  "execute_command cfg sid request w =
     (let (t0, w1) = time_time w;
          cid = ''cmd_'' @ sid @ ''_'' @ str_int (int_of_float t0);
          (start_time, w2) = time_time w1
      in case get_sandbox sid w2 of
           None \<Rightarrow>
             (let (now, w3) = utcnow w2
              in (\<lparr>command_id = cid, status = FAILED, stdout = '''',
                   stderr = ''No sandbox found for session'', exit_code = Some 1,
                   execution_time = Some 0, timestamp = now, resource_usage = None\<rparr>, w3))
         | Some sandbox \<Rightarrow>
             (let (is_safe, safety_message) = is_command_safe cfg (command request)
              in if \<not> is_safe
                 then (let w3 = audit ''unsafe_command_blocked'' sid
                                  [(''command'', VStr (command request)),
                                   (''reason'', VStr safety_message)] w2;
                           (t, w4) = time_time w3;
                           (now, w5) = utcnow w4
                       in (\<lparr>command_id = cid, status = FAILED, stdout = '''',
                            stderr = ''Command blocked: '' @ safety_message, exit_code = Some 1,
                            execution_time = Some (t - start_time), timestamp = now,
                            resource_usage = None\<rparr>, w5))
                 else (let w3 = audit ''command_execution_started'' sid
                                  [(''command_id'', VStr cid),
                                   (''command'', VStr (command request)),
                                   (''args'', VList (args request))] w2
                       in run_command sid cid start_time request w3)))"

definition get_command_history :: "string \<Rightarrow> int \<Rightarrow> world \<Rightarrow> CommandResponse list" where
  \<comment> \<open>\<^verbatim>\<open>history[-limit:]\<close> is the whole list when it has at most \<open>limit\<close> entries\<close>
  "get_command_history sid limit w =
     (case command_history w sid of
        None \<Rightarrow> []
      | Some history \<Rightarrow>
          (if limit > 0 then drop (length history - nat limit) history else history))"

definition cleanup_sandbox :: "string \<Rightarrow> world \<Rightarrow> bool \<times> world" where
  "cleanup_sandbox sid w =
     (if active_sandboxes w sid = None then (False, w)
      else (let sandbox_dir = sandbox_dir_of sid;
                (removed, w1) = (if sandbox_dir \<in> dirs w then rmtree sandbox_dir w
                                 else (Inr (), w))
            in case removed of
                 Inl msg \<Rightarrow>
                   (False, log_error ''sandbox_cleanup_failed''
                             [(''session_id'', VStr sid), (''error'', VStr msg)] w1)
               | Inr _ \<Rightarrow>
                   (True, audit ''sandbox_cleaned_up'' sid []
                            (w1\<lparr>active_sandboxes := (active_sandboxes w1)(sid := None),
                                command_history := (command_history w1)(sid := None)\<rparr>))))"

section \<open>server.py: the endpoints\<close>

datatype http_error = HTTPException int string

definition get_current_session :: "string \<Rightarrow> world \<Rightarrow> (http_error + session) \<times> world" where
  "get_current_session sid w =
     (case validate_session sid w of
        (None, w1) \<Rightarrow> (Inl (HTTPException 401 ''Invalid or expired session''), w1)
      | (Some sess, w1) \<Rightarrow> (Inr sess, w1))"

definition login :: "config \<Rightarrow> AuthRequest \<Rightarrow> world \<Rightarrow> (http_error + AuthResponse) \<times> world" where
  \<comment> \<open>an exception of \<^verbatim>\<open>authenticate\<close> or of \<^verbatim>\<open>create_sandbox\<close> is logged and
     answered with the error 500\<close>
  "login cfg auth_request w =
     (case authenticate auth_request w of
        (Inl e, w1) \<Rightarrow>
          (Inl (HTTPException 500 ''Authentication failed''),
           log_error ''Authentication error'' [(''error'', VStr (error_text e))] w1)
      | (Inr response, w1) \<Rightarrow>
          (if success response \<and> resp_session_id response \<noteq> None
              \<and> resp_session_id response \<noteq> Some []
           then (case validate_session (the (resp_session_id response)) w1 of
                   (None, w2) \<Rightarrow> (Inr response, w2)
                 | (Some sess, w2) \<Rightarrow>
                     (case create_sandbox cfg (the (resp_session_id response))
                             (username sess) w2 of
                        (Inl e, w3) \<Rightarrow>
                          (Inl (HTTPException 500 ''Authentication failed''),
                           log_error ''Authentication error''
                             [(''error'', VStr (error_text e))] w3)
                      | (Inr sandbox_info, w3) \<Rightarrow> (Inr response, w3)))
           else (Inr response, w1)))"

definition logout_endpoint :: "string \<Rightarrow> world \<Rightarrow> bool \<times> world" where
  \<comment> \<open>\<^verbatim>\<open>POST /auth/logout\<close>; the result is the \<^verbatim>\<open>success\<close> field of its answer\<close>
  "logout_endpoint sid w =
     (case logout sid w of
        (True, w1) \<Rightarrow> (True, snd (cleanup_sandbox sid w1))
      | (False, w1) \<Rightarrow> (False, w1))"

definition execute_command_endpoint ::
    "config \<Rightarrow> string \<Rightarrow> CommandRequest \<Rightarrow> world \<Rightarrow> (http_error + CommandResponse) \<times> world" where
  \<comment> \<open>\<^verbatim>\<open>POST /commands/execute\<close>: the session dependency runs before the body\<close>
  "execute_command_endpoint cfg sid command_request w =
     (case get_current_session sid w of
        (Inl e, w1) \<Rightarrow> (Inl e, w1)
      | (Inr sess, w1) \<Rightarrow>
          (if session_id command_request \<noteq> sid
           then (Inl (HTTPException 400 ''Session ID mismatch''), w1)
           else (case execute_command cfg sid command_request w1 of
                   (response, w2) \<Rightarrow> (Inr response, w2))))"


text \<open>
  A run of the server is a list of requests served one after the other; each request
  leaves the state to the next. The requests are those of the endpoints above.
\<close>

datatype request =
    Login AuthRequest
  | Logout string
  | Execute string CommandRequest
  | History string int



section \<open>Initial state and class invariant\<close>

text \<open>
  The state once the three modules are loaded, under the default configuration and with
  no \<^verbatim>\<open>authorized_keys\<close> file, in an environment that is as quiet as can be: each
  reading of the UTC clock is one microsecond after the one before, the wall clock
  advances one second per reading, the tokens drawn are pairwise distinct, and
  \<^verbatim>\<open>shutil.rmtree\<close> never fails. The closed examples below start from it.
\<close>

definition fresh_world :: world where
  "fresh_world =
     \<lparr>active_sessions = Map.empty,
      api_tokens = default_api_tokens,
      ssh_keys = default_ssh_keys,
      active_sandboxes = Map.empty,
      command_history = Map.empty,
      json_logs = [],
      dirs = {''.'', str_path SANDBOX_ROOT},
      utc_clock = (\<lambda>n. 1762214400000000 + int n),
      utc_reads = 0,
      wall_clock = (\<lambda>n. 1762214400 + real n),
      wall_reads = 0,
      token_source = (\<lambda>n. ''tok'' @ replicate (Suc n) (CHR ''0'')),
      token_reads = 0,
      rmtree_error = (\<lambda>n. None),
      rmtree_calls = 0,
      sim_calls = []\<rparr>"

definition command_request :: "string \<Rightarrow> string \<Rightarrow> string list \<Rightarrow> CommandRequest" where
  \<comment> \<open>\<^verbatim>\<open>CommandRequest(session_id=sid, command=cmd, args=cmd_args)\<close>, the other fields at
     their defaults\<close>
  "command_request sid cmd cmd_args =
     \<lparr>session_id = sid, command = cmd, args = cmd_args, environment = [],
      working_directory = None, timeout = None\<rparr>"

definition devops_login :: AuthRequest where
  \<comment> \<open>a login with the API token of the user \<^verbatim>\<open>devops\<close>\<close>
  "devops_login =
     \<lparr>req_method = API_TOKEN, credentials = ''77c1b3d8c275f2d774a60ea912080c04'',
      req_username = None\<rparr>"

definition sandboxed_world :: world where
  \<comment> \<open>the fresh state with a sandbox provisioned for the session \<^verbatim>\<open>tok0\<close>\<close>
  "sandboxed_world = snd (create_sandbox default_config ''tok0'' ''devops'' fresh_world)"

definition overlapping_config :: config where
  \<comment> \<open>a configuration in which \<^verbatim>\<open>rm\<close> is on the allow-list as well as on the block-list\<close>
  "overlapping_config =
     \<lparr>available_tools = AVAILABLE_TOOLS @ [''rm''], blocked_commands = BLOCKED_COMMANDS\<rparr>"

definition sandbox_inv :: "world \<Rightarrow> bool" where
  \<comment> \<open>what \<^verbatim>\<open>SandboxManager.__init__\<close> establishes and every operation keeps: a session
     has a history exactly when it has a sandbox, and no history exceeds 100 entries\<close>
  "sandbox_inv w =
     ((\<forall>sid. (command_history w sid = None) = (active_sandboxes w sid = None)) \<and>
      (\<forall>sid h. command_history w sid = Some h \<longrightarrow> length h \<le> 100))"

definition is_audit_event :: "string \<Rightarrow> string \<Rightarrow> log_entry \<Rightarrow> bool" where
  \<comment> \<open>the entry is what \<^verbatim>\<open>logger.audit(ev, session_id=sid, ...)\<close> records\<close>
  "is_audit_event ev sid e =
     (event e = ''AUDIT: '' @ ev \<and> level e = ''INFO''
      \<and> map_of (log_fields e) ''session_id'' = Some (VStr sid)
      \<and> map_of (log_fields e) ''audit'' = Some (VBool True))"

definition stored_history :: "string \<Rightarrow> world \<Rightarrow> CommandResponse list" where
  \<comment> \<open>the results kept for a session, oldest first; none when the session has no history\<close>
  "stored_history sid w = (case command_history w sid of None \<Rightarrow> [] | Some h \<Rightarrow> h)"



definition session_world :: world where
  \<comment> \<open>the fresh state after the user \<^verbatim>\<open>devops\<close> has authenticated; the session is
     \<^verbatim>\<open>tok0\<close>\<close>
  "session_world = snd (authenticate devops_login fresh_world)"

definition late_session_world :: world where
  \<comment> \<open>the same state read more than a day later\<close>
  "late_session_world = session_world\<lparr>utc_clock := (\<lambda>n. 1762400000000000 + int n)\<rparr>"

definition tok0_session :: session where
  \<comment> \<open>the session that \<open>session_world\<close> holds for \<^verbatim>\<open>tok0\<close>\<close>
  "tok0_session =
     \<lparr>username = ''devops'', auth_method = API_TOKEN, created_at = 1762214400000001,
      expires_at = 1762300800000000, last_activity = 1762214400000002\<rparr>"

definition failing_rmtree_world :: world where
  \<comment> \<open>the state with the sandbox of \<^verbatim>\<open>tok0\<close>, on a file system that refuses every removal\<close>
  "failing_rmtree_world =
     sandboxed_world\<lparr>rmtree_error := (\<lambda>n. Some ''[Errno 13] Permission denied'')\<rparr>"

text \<open>
  The end-to-end scenario, from any state \<open>w\<close>: the user \<^verbatim>\<open>devops\<close> logs in with the API
  token, runs \<^verbatim>\<open>git status\<close> and \<^verbatim>\<open>rm -rf /\<close> (each sent, as the client sends it, as
  a command name and its list of arguments), and logs out.
\<close>

definition next_session_id :: "world \<Rightarrow> string" where
  \<comment> \<open>the token that the next successful authentication draws\<close>
  "next_session_id w = token_source w (token_reads w)"

definition after_login :: "world \<Rightarrow> world" where
  "after_login w = snd (login default_config devops_login w)"

definition git_status :: "string \<Rightarrow> CommandRequest" where
  "git_status sid = command_request sid ''git'' [''status'']"

definition rm_rf :: "string \<Rightarrow> CommandRequest" where
  "rm_rf sid = command_request sid ''rm'' [''-rf'', ''/'']"

definition after_git_status :: "world \<Rightarrow> world" where
  "after_git_status w =
     snd (execute_command_endpoint default_config (next_session_id w)
            (git_status (next_session_id w)) (after_login w))"

definition after_rm_rf :: "world \<Rightarrow> world" where
  "after_rm_rf w =
     snd (execute_command_endpoint default_config (next_session_id w)
            (rm_rf (next_session_id w)) (after_git_status w))"

definition after_logout :: "world \<Rightarrow> world" where
  "after_logout w = snd (logout_endpoint (next_session_id w) (after_rm_rf w))"

definition one_command_world :: world where
  \<comment> \<open>the state after \<^verbatim>\<open>git status\<close> has run in the sandbox of \<^verbatim>\<open>tok0\<close>\<close>
  "one_command_world =
     snd (execute_command default_config ''tok0'' (git_status ''tok0'') sandboxed_world)"

definition first_result :: CommandResponse where
  \<comment> \<open>the result of that command\<close>
  "first_result =
     fst (execute_command default_config ''tok0'' (git_status ''tok0'') sandboxed_world)"

definition client_demo_tokens :: "string list" where
  \<comment> \<open>client.py, \<^verbatim>\<open>authenticate\<close>: under the comment "Show available demo tokens" the
     client prints "Demo API tokens available:" and these three, then asks for the token\<close>
  "client_demo_tokens = [''admin'', ''devops'', ''user'']"


definition docker_ps :: "string \<Rightarrow> CommandRequest" where
  "docker_ps sid = command_request sid ''docker'' [''ps'']"

definition terraform_plan :: "string \<Rightarrow> CommandRequest" where
  "terraform_plan sid = command_request sid ''terraform'' [''plan'']"

definition second_result :: CommandResponse where
  \<comment> \<open>the result of \<^verbatim>\<open>docker ps\<close>, run after \<^verbatim>\<open>git status\<close> in the sandbox of \<^verbatim>\<open>tok0\<close>\<close>
  "second_result =
     fst (execute_command default_config ''tok0'' (docker_ps ''tok0'') one_command_world)"

definition two_command_world :: world where
  "two_command_world =
     snd (execute_command default_config ''tok0'' (docker_ps ''tok0'') one_command_world)"

definition third_result :: CommandResponse where
  \<comment> \<open>the result of \<^verbatim>\<open>terraform plan\<close>, run after these two\<close>
  "third_result =
     fst (execute_command default_config ''tok0'' (terraform_plan ''tok0'') two_command_world)"

definition three_command_world :: world where
  "three_command_world =
     snd (execute_command default_config ''tok0'' (terraform_plan ''tok0'') two_command_world)"

fun run_many :: "nat \<Rightarrow> world \<Rightarrow> world" where
  \<comment> \<open>the state after \<^verbatim>\<open>git status\<close> has run \<open>n\<close> times in the sandbox of \<^verbatim>\<open>tok0\<close>\<close>
  "run_many 0 w = w"
| "run_many (Suc n) w =
     snd (execute_command default_config ''tok0'' (git_status ''tok0'') (run_many n w))"

definition full_history_world :: world where
  \<comment> \<open>the state in which the history of \<^verbatim>\<open>tok0\<close> holds 100 results\<close>
  "full_history_world = run_many 100 sandboxed_world"

section \<open>Facts about the string operations\<close>

lemma simulate_exit_code: "snd (snd (simulate_devops_command cmd cmd_args)) = 0"
  by (simp add: simulate_devops_command_def Let_def)
lemma startswith_iff: "startswith p s \<longleftrightarrow> (\<exists>b. s = p @ b)"
  by (induction p s rule: startswith.induct) auto

lemma contains_iff: "contains p s \<longleftrightarrow> (\<exists>a b. s = a @ p @ b)"
proof (induction s)
  case Nil
  then show ?case by auto
next
  case (Cons c s)
  show ?case
  proof
    assume "contains p (c # s)"
    then consider "startswith p (c # s)" | "contains p s" by auto
    then show "\<exists>a b. c # s = a @ p @ b"
    proof cases
      case 1
      then obtain b where "c # s = p @ b" by (auto simp: startswith_iff)
      then have "c # s = [] @ p @ b" by simp
      then show ?thesis by blast
    next
      case 2
      then obtain a b where "s = a @ p @ b" using Cons.IH by blast
      then have "c # s = (c # a) @ p @ b" by simp
      then show ?thesis by blast
    qed
  next
    assume "\<exists>a b. c # s = a @ p @ b"
    then obtain a b where ab: "c # s = a @ p @ b" by blast
    show "contains p (c # s)"
    proof (cases a)
      case Nil
      then have "startswith p (c # s)" using ab by (auto simp: startswith_iff)
      then show ?thesis by simp
    next
      case (Cons x a')
      then have "s = a' @ p @ b" using ab by simp
      then have "contains p s" using Cons.IH by blast
      then show ?thesis by simp
    qed
  qed
qed

section \<open>How the primitive steps change the state\<close>

lemma utcnow_value [simp]: "fst (utcnow w) = utc_clock w (utc_reads w)"
  by (simp add: utcnow_def)

lemma time_time_value [simp]: "fst (time_time w) = wall_clock w (wall_reads w)"
  by (simp add: time_time_def)

lemma token_urlsafe_value [simp]: "fst (token_urlsafe w) = token_source w (token_reads w)"
  by (simp add: token_urlsafe_def)

lemma utcnow_frame [simp]:
  "active_sessions (snd (utcnow w)) = active_sessions w"
  "api_tokens (snd (utcnow w)) = api_tokens w"
  "ssh_keys (snd (utcnow w)) = ssh_keys w"
  "active_sandboxes (snd (utcnow w)) = active_sandboxes w"
  "command_history (snd (utcnow w)) = command_history w"
  "json_logs (snd (utcnow w)) = json_logs w"
  "dirs (snd (utcnow w)) = dirs w"
  "utc_clock (snd (utcnow w)) = utc_clock w"
  "utc_reads (snd (utcnow w)) = Suc (utc_reads w)"
  "wall_clock (snd (utcnow w)) = wall_clock w"
  "wall_reads (snd (utcnow w)) = wall_reads w"
  "token_source (snd (utcnow w)) = token_source w"
  "token_reads (snd (utcnow w)) = token_reads w"
  "rmtree_error (snd (utcnow w)) = rmtree_error w"
  "rmtree_calls (snd (utcnow w)) = rmtree_calls w"
  "sim_calls (snd (utcnow w)) = sim_calls w"
  by (simp_all add: utcnow_def)

lemma time_time_frame [simp]:
  "active_sessions (snd (time_time w)) = active_sessions w"
  "api_tokens (snd (time_time w)) = api_tokens w"
  "ssh_keys (snd (time_time w)) = ssh_keys w"
  "active_sandboxes (snd (time_time w)) = active_sandboxes w"
  "command_history (snd (time_time w)) = command_history w"
  "json_logs (snd (time_time w)) = json_logs w"
  "dirs (snd (time_time w)) = dirs w"
  "utc_clock (snd (time_time w)) = utc_clock w"
  "utc_reads (snd (time_time w)) = utc_reads w"
  "wall_clock (snd (time_time w)) = wall_clock w"
  "wall_reads (snd (time_time w)) = Suc (wall_reads w)"
  "token_source (snd (time_time w)) = token_source w"
  "token_reads (snd (time_time w)) = token_reads w"
  "rmtree_error (snd (time_time w)) = rmtree_error w"
  "rmtree_calls (snd (time_time w)) = rmtree_calls w"
  "sim_calls (snd (time_time w)) = sim_calls w"
  by (simp_all add: time_time_def)

lemma token_urlsafe_frame [simp]:
  "active_sessions (snd (token_urlsafe w)) = active_sessions w"
  "api_tokens (snd (token_urlsafe w)) = api_tokens w"
  "ssh_keys (snd (token_urlsafe w)) = ssh_keys w"
  "active_sandboxes (snd (token_urlsafe w)) = active_sandboxes w"
  "command_history (snd (token_urlsafe w)) = command_history w"
  "json_logs (snd (token_urlsafe w)) = json_logs w"
  "dirs (snd (token_urlsafe w)) = dirs w"
  "utc_clock (snd (token_urlsafe w)) = utc_clock w"
  "utc_reads (snd (token_urlsafe w)) = utc_reads w"
  "wall_clock (snd (token_urlsafe w)) = wall_clock w"
  "wall_reads (snd (token_urlsafe w)) = wall_reads w"
  "token_source (snd (token_urlsafe w)) = token_source w"
  "token_reads (snd (token_urlsafe w)) = Suc (token_reads w)"
  "rmtree_error (snd (token_urlsafe w)) = rmtree_error w"
  "rmtree_calls (snd (token_urlsafe w)) = rmtree_calls w"
  "sim_calls (snd (token_urlsafe w)) = sim_calls w"
  by (simp_all add: token_urlsafe_def)

lemma log_structured_frame [simp]:
  "active_sessions (log_structured lvl ev kw w) = active_sessions w"
  "api_tokens (log_structured lvl ev kw w) = api_tokens w"
  "ssh_keys (log_structured lvl ev kw w) = ssh_keys w"
  "active_sandboxes (log_structured lvl ev kw w) = active_sandboxes w"
  "command_history (log_structured lvl ev kw w) = command_history w"
  "dirs (log_structured lvl ev kw w) = dirs w"
  "utc_clock (log_structured lvl ev kw w) = utc_clock w"
  "utc_reads (log_structured lvl ev kw w) = Suc (utc_reads w)"
  "wall_clock (log_structured lvl ev kw w) = wall_clock w"
  "wall_reads (log_structured lvl ev kw w) = wall_reads w"
  "token_source (log_structured lvl ev kw w) = token_source w"
  "token_reads (log_structured lvl ev kw w) = token_reads w"
  "rmtree_error (log_structured lvl ev kw w) = rmtree_error w"
  "rmtree_calls (log_structured lvl ev kw w) = rmtree_calls w"
  "sim_calls (log_structured lvl ev kw w) = sim_calls w"
  by (simp_all add: log_structured_def utcnow_def Let_def)

lemma log_structured_last:
  "json_logs (log_structured lvl ev kw w) \<noteq> []"
  "last (json_logs (log_structured lvl ev kw w)) =
     \<lparr>log_timestamp = utc_clock w (utc_reads w), level = upper_ascii lvl, event = ev,
      log_fields = kw\<rparr>"
  by (simp_all add: log_structured_def utcnow_def Let_def last_drop)

lemma log_structured_bounded: "length (json_logs (log_structured lvl ev kw w)) \<le> 1000"
  by (simp add: log_structured_def utcnow_def Let_def)

lemma audit_frame [simp]:
  "active_sessions (audit ev sid kw w) = active_sessions w"
  "api_tokens (audit ev sid kw w) = api_tokens w"
  "ssh_keys (audit ev sid kw w) = ssh_keys w"
  "active_sandboxes (audit ev sid kw w) = active_sandboxes w"
  "command_history (audit ev sid kw w) = command_history w"
  "dirs (audit ev sid kw w) = dirs w"
  "utc_clock (audit ev sid kw w) = utc_clock w"
  "utc_reads (audit ev sid kw w) = Suc (utc_reads w)"
  "wall_clock (audit ev sid kw w) = wall_clock w"
  "wall_reads (audit ev sid kw w) = wall_reads w"
  "token_source (audit ev sid kw w) = token_source w"
  "token_reads (audit ev sid kw w) = token_reads w"
  "rmtree_error (audit ev sid kw w) = rmtree_error w"
  "rmtree_calls (audit ev sid kw w) = rmtree_calls w"
  "sim_calls (audit ev sid kw w) = sim_calls w"
  by (simp_all add: audit_def)

lemma log_error_frame [simp]:
  "active_sessions (log_error msg kw w) = active_sessions w"
  "api_tokens (log_error msg kw w) = api_tokens w"
  "ssh_keys (log_error msg kw w) = ssh_keys w"
  "active_sandboxes (log_error msg kw w) = active_sandboxes w"
  "command_history (log_error msg kw w) = command_history w"
  "dirs (log_error msg kw w) = dirs w"
  "utc_clock (log_error msg kw w) = utc_clock w"
  "utc_reads (log_error msg kw w) = Suc (utc_reads w)"
  "wall_clock (log_error msg kw w) = wall_clock w"
  "wall_reads (log_error msg kw w) = wall_reads w"
  "token_source (log_error msg kw w) = token_source w"
  "token_reads (log_error msg kw w) = token_reads w"
  "rmtree_error (log_error msg kw w) = rmtree_error w"
  "rmtree_calls (log_error msg kw w) = rmtree_calls w"
  "sim_calls (log_error msg kw w) = sim_calls w"
  by (simp_all add: log_error_def)

lemma audit_last:
  "json_logs (audit ev sid kw w) \<noteq> []"
  "last (json_logs (audit ev sid kw w)) =
     \<lparr>log_timestamp = utc_clock w (utc_reads w), level = upper_ascii ''info'',
      event = ''AUDIT: '' @ ev,
      log_fields = [(''session_id'', VStr sid), (''audit'', VBool True)] @ kw\<rparr>"
  by (simp_all add: audit_def log_structured_last)

lemma mkdir_frame [simp]:
  "active_sessions (snd (mkdir p w)) = active_sessions w"
  "api_tokens (snd (mkdir p w)) = api_tokens w"
  "ssh_keys (snd (mkdir p w)) = ssh_keys w"
  "active_sandboxes (snd (mkdir p w)) = active_sandboxes w"
  "command_history (snd (mkdir p w)) = command_history w"
  "json_logs (snd (mkdir p w)) = json_logs w"
  "utc_clock (snd (mkdir p w)) = utc_clock w"
  "utc_reads (snd (mkdir p w)) = utc_reads w"
  "wall_clock (snd (mkdir p w)) = wall_clock w"
  "wall_reads (snd (mkdir p w)) = wall_reads w"
  "token_source (snd (mkdir p w)) = token_source w"
  "token_reads (snd (mkdir p w)) = token_reads w"
  "rmtree_error (snd (mkdir p w)) = rmtree_error w"
  "rmtree_calls (snd (mkdir p w)) = rmtree_calls w"
  "sim_calls (snd (mkdir p w)) = sim_calls w"
  by (simp_all add: mkdir_def)

lemma make_dirs_frame [simp]:
  "active_sessions (snd (make_dirs sid w)) = active_sessions w"
  "api_tokens (snd (make_dirs sid w)) = api_tokens w"
  "ssh_keys (snd (make_dirs sid w)) = ssh_keys w"
  "active_sandboxes (snd (make_dirs sid w)) = active_sandboxes w"
  "command_history (snd (make_dirs sid w)) = command_history w"
  "json_logs (snd (make_dirs sid w)) = json_logs w"
  "utc_clock (snd (make_dirs sid w)) = utc_clock w"
  "utc_reads (snd (make_dirs sid w)) = utc_reads w"
  "wall_clock (snd (make_dirs sid w)) = wall_clock w"
  "wall_reads (snd (make_dirs sid w)) = wall_reads w"
  "token_source (snd (make_dirs sid w)) = token_source w"
  "token_reads (snd (make_dirs sid w)) = token_reads w"
  "rmtree_error (snd (make_dirs sid w)) = rmtree_error w"
  "rmtree_calls (snd (make_dirs sid w)) = rmtree_calls w"
  "sim_calls (snd (make_dirs sid w)) = sim_calls w"
  by (simp_all add: make_dirs_def Let_def case_prod_beta split: sum.splits)

lemma register_sandbox_frame [simp]:
  "active_sessions (snd (register_sandbox cfg sid user w)) = active_sessions w"
  "api_tokens (snd (register_sandbox cfg sid user w)) = api_tokens w"
  "ssh_keys (snd (register_sandbox cfg sid user w)) = ssh_keys w"
  "dirs (snd (register_sandbox cfg sid user w)) = dirs w"
  "utc_clock (snd (register_sandbox cfg sid user w)) = utc_clock w"
  "wall_clock (snd (register_sandbox cfg sid user w)) = wall_clock w"
  "wall_reads (snd (register_sandbox cfg sid user w)) = wall_reads w"
  "token_source (snd (register_sandbox cfg sid user w)) = token_source w"
  "token_reads (snd (register_sandbox cfg sid user w)) = token_reads w"
  "rmtree_error (snd (register_sandbox cfg sid user w)) = rmtree_error w"
  "rmtree_calls (snd (register_sandbox cfg sid user w)) = rmtree_calls w"
  "sim_calls (snd (register_sandbox cfg sid user w)) = sim_calls w"
  by (simp_all add: register_sandbox_def Let_def case_prod_beta)

lemma split_sep_no_slash: "CHR ''/'' \<notin> set s \<Longrightarrow> split_sep piece s = [piece @ s]"
  by (induction s arbitrary: piece) auto

lemma file_name_path:
  assumes "file_name s"
  shows "parts s = [s]" and "root_of s = []"
proof -
  have no_slash: "CHR ''/'' \<notin> set s" and named: "s \<noteq> []" "s \<noteq> ''.''"
    using assms by (simp_all add: file_name_def)
  show "parts s = [s]"
    using named by (simp add: parts_def split_sep_no_slash [OF no_slash])
  obtain c cs where s: "s = c # cs"
    using named(1) by (cases s) auto
  then have "c \<noteq> CHR ''/''"
    using no_slash by auto
  then show "root_of s = []"
    by (simp add: root_of_def s)
qed

lemma sandbox_root_path: "SANDBOX_ROOT = ([], [''sandbox''])"
  by code_simp

lemma sandbox_subdirs:
  "parts ''home'' = [''home'']" "root_of ''home'' = []"
  "parts ''tmp'' = [''tmp'']" "root_of ''tmp'' = []"
  "parts ''workspace'' = [''workspace'']" "root_of ''workspace'' = []"
  by code_simp+

lemma make_dirs_ok:
  assumes "file_name sid" and "str_path SANDBOX_ROOT \<in> dirs w"
  shows "fst (make_dirs sid w) = Inr ()"
    and "sandbox_dir_of sid \<in> dirs (snd (make_dirs sid w))"
    and "str_path SANDBOX_ROOT \<in> dirs (snd (make_dirs sid w))"
  using assms file_name_path [OF assms(1)]
  by (auto simp: make_dirs_def mkdir_def sandbox_dir_of_def joinpath_def parent_def
      sandbox_root_path sandbox_subdirs str_path_def Let_def)

section \<open>The three outcomes of \<^verbatim>\<open>execute_command\<close>\<close>

lemma execute_command_rejected:
  assumes "active_sandboxes w sid = Some sb" and "\<not> fst (is_command_safe cfg (command req))"
  shows "status (fst (execute_command cfg sid req w)) = FAILED"
    and "stdout (fst (execute_command cfg sid req w)) = ''''"
    and "stderr (fst (execute_command cfg sid req w)) =
           ''Command blocked: '' @ snd (is_command_safe cfg (command req))"
    and "exit_code (fst (execute_command cfg sid req w)) = Some 1"
    and "sim_calls (snd (execute_command cfg sid req w)) = sim_calls w"
    and "command_history (snd (execute_command cfg sid req w)) = command_history w"
    and "active_sandboxes (snd (execute_command cfg sid req w)) = active_sandboxes w"
    and "active_sessions (snd (execute_command cfg sid req w)) = active_sessions w"
    and "dirs (snd (execute_command cfg sid req w)) = dirs w"
    and "last (json_logs (snd (execute_command cfg sid req w))) =
           \<lparr>log_timestamp = utc_clock w (utc_reads w), level = upper_ascii ''info'',
            event = ''AUDIT: unsafe_command_blocked'',
            log_fields = [(''session_id'', VStr sid), (''audit'', VBool True),
                          (''command'', VStr (command req)),
                          (''reason'', VStr (snd (is_command_safe cfg (command req))))]\<rparr>"
  using assms
  by (simp_all add: execute_command_def get_sandbox_def case_prod_beta Let_def audit_last)

lemma store_history_frame [simp]:
  "active_sessions (store_history sid r w) = active_sessions w"
  "api_tokens (store_history sid r w) = api_tokens w"
  "ssh_keys (store_history sid r w) = ssh_keys w"
  "active_sandboxes (store_history sid r w) = active_sandboxes w"
  "json_logs (store_history sid r w) = json_logs w"
  "dirs (store_history sid r w) = dirs w"
  "utc_clock (store_history sid r w) = utc_clock w"
  "utc_reads (store_history sid r w) = utc_reads w"
  "wall_clock (store_history sid r w) = wall_clock w"
  "wall_reads (store_history sid r w) = wall_reads w"
  "token_source (store_history sid r w) = token_source w"
  "token_reads (store_history sid r w) = token_reads w"
  "rmtree_error (store_history sid r w) = rmtree_error w"
  "rmtree_calls (store_history sid r w) = rmtree_calls w"
  "sim_calls (store_history sid r w) = sim_calls w"
  by (simp_all add: store_history_def Let_def split: option.splits)

lemma store_history_result:
  "command_history (store_history sid r w) =
     (case command_history w sid of
        None \<Rightarrow> command_history w
      | Some h \<Rightarrow> (command_history w)(sid \<mapsto> drop (length (h @ [r]) - 100) (h @ [r])))"
  by (simp add: store_history_def Let_def split: option.splits)

lemma execute_command_passed:
  assumes "active_sandboxes w sid = Some sb" and "fst (is_command_safe cfg (command req))"
  shows "status (fst (execute_command cfg sid req w)) = COMPLETED"
    and "stdout (fst (execute_command cfg sid req w)) =
           fst (simulate_devops_command (command req) (args req))"
    and "stderr (fst (execute_command cfg sid req w)) =
           fst (snd (simulate_devops_command (command req) (args req)))"
    and "exit_code (fst (execute_command cfg sid req w)) = Some 0"
    and "sim_calls (snd (execute_command cfg sid req w)) = sim_calls w @ [(command req, args req)]"
    and "command_history (snd (execute_command cfg sid req w)) =
           (case command_history w sid of
              None \<Rightarrow> command_history w
            | Some h \<Rightarrow> (command_history w)(sid \<mapsto>
                 drop (length (h @ [fst (execute_command cfg sid req w)]) - 100)
                      (h @ [fst (execute_command cfg sid req w)])))"
    and "active_sandboxes (snd (execute_command cfg sid req w)) = active_sandboxes w"
    and "active_sessions (snd (execute_command cfg sid req w)) = active_sessions w"
    and "dirs (snd (execute_command cfg sid req w)) = dirs w"
    and "event (last (json_logs (snd (execute_command cfg sid req w)))) =
           ''AUDIT: command_execution_completed''"
  using assms simulate_exit_code [of "command req" "args req"]
  by (simp_all add: execute_command_def run_command_def get_sandbox_def case_prod_beta Let_def
      audit_last store_history_result split: option.splits)

lemma execute_command_no_sandbox:
  assumes "active_sandboxes w sid = None"
  shows "status (fst (execute_command cfg sid req w)) = FAILED"
    and "stderr (fst (execute_command cfg sid req w)) = ''No sandbox found for session''"
    and "exit_code (fst (execute_command cfg sid req w)) = Some 1"
    and "sim_calls (snd (execute_command cfg sid req w)) = sim_calls w"
    and "command_history (snd (execute_command cfg sid req w)) = command_history w"
    and "active_sandboxes (snd (execute_command cfg sid req w)) = active_sandboxes w"
    and "active_sessions (snd (execute_command cfg sid req w)) = active_sessions w"
    and "dirs (snd (execute_command cfg sid req w)) = dirs w"
    and "json_logs (snd (execute_command cfg sid req w)) = json_logs w"
  using assms
  by (simp_all add: execute_command_def get_sandbox_def case_prod_beta Let_def)

lemma execute_command_sandboxes [simp]:
  "active_sandboxes (snd (execute_command cfg sid req w)) = active_sandboxes w"
proof (cases "active_sandboxes w sid")
  case None
  then show ?thesis by (rule execute_command_no_sandbox)
next
  case (Some sb)
  then show ?thesis
    by (cases "fst (is_command_safe cfg (command req))")
       (simp_all add: execute_command_passed execute_command_rejected)
qed

section \<open>The invariant of the sandbox manager\<close>

lemma fresh_world_inv: "sandbox_inv fresh_world"
  by (simp add: sandbox_inv_def fresh_world_def)

lemma create_sandbox_created:
  assumes "file_name sid" and "str_path SANDBOX_ROOT \<in> dirs w"
  shows "command_history (snd (create_sandbox cfg sid user w)) = (command_history w)(sid \<mapsto> [])"
    and "active_sandboxes (snd (create_sandbox cfg sid user w)) sid \<noteq> None"
    and "sid' \<noteq> sid \<Longrightarrow>
           active_sandboxes (snd (create_sandbox cfg sid user w)) sid' = active_sandboxes w sid'"
    and "utc_reads (snd (create_sandbox cfg sid user w)) = Suc (Suc (utc_reads w))"
    and "sandbox_dir_of sid \<in> dirs (snd (create_sandbox cfg sid user w))"
    and "\<exists>sandbox_info. fst (create_sandbox cfg sid user w) = Inr sandbox_info"
  using make_dirs_ok [OF assms]
  by (simp_all add: create_sandbox_def register_sandbox_def case_prod_beta Let_def)

lemma create_sandbox_inv: "sandbox_inv w \<Longrightarrow> sandbox_inv (snd (create_sandbox cfg sid user w))"
  by (cases "fst (make_dirs sid w)")
     (simp_all add: sandbox_inv_def create_sandbox_def register_sandbox_def case_prod_beta Let_def)

lemma execute_command_inv:
  assumes "sandbox_inv w"
  shows "sandbox_inv (snd (execute_command cfg sid req w))"
proof (cases "active_sandboxes w sid")
  case None
  then show ?thesis using assms
    by (simp add: sandbox_inv_def execute_command_no_sandbox)
next
  case (Some sb)
  show ?thesis
  proof (cases "fst (is_command_safe cfg (command req))")
    case False
    then show ?thesis using assms Some
      by (simp add: sandbox_inv_def execute_command_rejected)
  next
    case True
    then show ?thesis using assms Some
      by (auto simp: sandbox_inv_def execute_command_passed split: option.splits)
  qed
qed

lemma cleanup_sandbox_inv: "sandbox_inv w \<Longrightarrow> sandbox_inv (snd (cleanup_sandbox sid w))"
  by (auto simp: sandbox_inv_def cleanup_sandbox_def rmtree_def case_prod_beta Let_def
      split: option.splits sum.splits if_splits)

lemma tok0_file_name: "file_name ''tok0''"
  by (simp add: file_name_def)

lemma fresh_world_root: "str_path SANDBOX_ROOT \<in> dirs fresh_world"
  by (simp add: fresh_world_def)

lemma sandboxed_world_sandbox: "active_sandboxes sandboxed_world ''tok0'' \<noteq> None"
  unfolding sandboxed_world_def
  by (rule create_sandbox_created(2) [OF tok0_file_name fresh_world_root])

lemma sandboxed_world_history: "command_history sandboxed_world ''tok0'' = Some []"
  by (simp add: sandboxed_world_def create_sandbox_created(1) [OF tok0_file_name fresh_world_root])

lemma sandboxed_world_inv: "sandbox_inv sandboxed_world"
  by (simp add: sandboxed_world_def create_sandbox_inv fresh_world_inv)

section \<open>The policy check\<close>

lemma git_is_safe: "fst (is_command_safe default_config ''git'')"
  by code_simp

lemma blocked_first:
  assumes "split (strip cmd) = part0 # rest" and "lower part0 \<in> set (blocked_commands cfg)"
  shows "is_command_safe cfg cmd =
           (False, ''Command '' @ [CHR 0x27] @ lower part0 @ [CHR 0x27]
                   @ '' is blocked for security reasons'')"
  using assms by (simp add: is_command_safe_def Let_def)

text \<open>
  C10. An invocation that passes the policy check in a session with a sandbox always gets
  exit code 0 from the simulation, so its result is always \<open>COMPLETED\<close>: after a passed
  check there is no \<open>FAILED\<close> and no \<open>TIMEOUT\<close> result.
\<close>

theorem passed_policy_always_completed:
  assumes "active_sandboxes w sid \<noteq> None"
    and "fst (is_command_safe cfg (command req))"
  shows "snd (snd (simulate_devops_command (command req) (args req))) = 0
       \<and> exit_code (fst (execute_command cfg sid req w)) = Some 0
       \<and> status (fst (execute_command cfg sid req w)) = COMPLETED"
proof -
  from assms(1) obtain sb where "active_sandboxes w sid = Some sb" by blast
  then show ?thesis
    using assms(2) by (simp add: simulate_exit_code execute_command_passed)
qed

theorem passed_policy_always_completed_witness:
  "active_sandboxes sandboxed_world ''tok0'' \<noteq> None
   \<and> fst (is_command_safe default_config (command (command_request ''tok0'' ''git'' [''status''])))
   \<and> snd (snd (simulate_devops_command (command (command_request ''tok0'' ''git'' [''status'']))
                  (args (command_request ''tok0'' ''git'' [''status''])))) = 0
   \<and> exit_code (fst (execute_command default_config ''tok0''
                        (command_request ''tok0'' ''git'' [''status'']) sandboxed_world)) = Some 0
   \<and> status (fst (execute_command default_config ''tok0''
                     (command_request ''tok0'' ''git'' [''status'']) sandboxed_world)) = COMPLETED"
proof -
  have safe: "fst (is_command_safe default_config (command (command_request ''tok0'' ''git'' [''status''])))"
    using git_is_safe by (simp add: command_request_def)
  show ?thesis
    using sandboxed_world_sandbox safe
      passed_policy_always_completed [OF sandboxed_world_sandbox safe]
    by blast
qed

text \<open>
  C9. The verdict of the policy check is a function of the command text alone. A command
  whose name is on the block-list is rejected with the block-list reason, whether or not
  the name is on the allow-list too; submitted a second time, in the state the first
  submission left, it is rejected with the same status, error text, output and exit code.
\<close>

theorem blocklist_precedence_and_repeatable:
  assumes "split (strip (command req)) = part0 # rest"
    and "lower part0 \<in> set (blocked_commands cfg)"
    and "active_sandboxes w sid \<noteq> None"
  shows "is_command_safe cfg (command req) =
           (False, ''Command '' @ [CHR 0x27] @ lower part0 @ [CHR 0x27]
                   @ '' is blocked for security reasons'')
       \<and> status (fst (execute_command cfg sid req w)) = FAILED
       \<and> stderr (fst (execute_command cfg sid req w)) =
           ''Command blocked: Command '' @ [CHR 0x27] @ lower part0 @ [CHR 0x27]
             @ '' is blocked for security reasons''
       \<and> status (fst (execute_command cfg sid req (snd (execute_command cfg sid req w)))) =
           status (fst (execute_command cfg sid req w))
       \<and> stderr (fst (execute_command cfg sid req (snd (execute_command cfg sid req w)))) =
           stderr (fst (execute_command cfg sid req w))
       \<and> stdout (fst (execute_command cfg sid req (snd (execute_command cfg sid req w)))) =
           stdout (fst (execute_command cfg sid req w))
       \<and> exit_code (fst (execute_command cfg sid req (snd (execute_command cfg sid req w)))) =
           exit_code (fst (execute_command cfg sid req w))"
proof -
  note verdict = blocked_first [OF assms(1,2)]
  then have unsafe: "\<not> fst (is_command_safe cfg (command req))" by simp
  from assms(3) obtain sb where sb: "active_sandboxes w sid = Some sb" by blast
  then have sb': "active_sandboxes (snd (execute_command cfg sid req w)) sid = Some sb" by simp
  show ?thesis
    using verdict
    by (simp add: execute_command_rejected [OF sb unsafe] execute_command_rejected [OF sb' unsafe])
qed

theorem blocklist_precedence_and_repeatable_witness:
  "split (strip (command (command_request ''tok0'' ''rm -rf /'' []))) = ''rm'' # [''-rf'', ''/'']
   \<and> lower ''rm'' \<in> set (blocked_commands overlapping_config)
   \<and> lower ''rm'' \<in> set (available_tools overlapping_config)
   \<and> active_sandboxes sandboxed_world ''tok0'' \<noteq> None
   \<and> is_command_safe overlapping_config (command (command_request ''tok0'' ''rm -rf /'' [])) =
        (False, ''Command '' @ [CHR 0x27] @ lower ''rm'' @ [CHR 0x27]
                @ '' is blocked for security reasons'')
   \<and> status (fst (execute_command overlapping_config ''tok0''
                     (command_request ''tok0'' ''rm -rf /'' []) sandboxed_world)) = FAILED
   \<and> stderr (fst (execute_command overlapping_config ''tok0''
                     (command_request ''tok0'' ''rm -rf /'' [])
                     (snd (execute_command overlapping_config ''tok0''
                             (command_request ''tok0'' ''rm -rf /'' []) sandboxed_world)))) =
       stderr (fst (execute_command overlapping_config ''tok0''
                     (command_request ''tok0'' ''rm -rf /'' []) sandboxed_world))"
proof -
  have h1: "split (strip (command (command_request ''tok0'' ''rm -rf /'' []))) = ''rm'' # [''-rf'', ''/'']"
    by code_simp
  have h2: "lower ''rm'' \<in> set (blocked_commands overlapping_config)"
    by code_simp
  have h3: "lower ''rm'' \<in> set (available_tools overlapping_config)"
    by code_simp
  show ?thesis
    using h1 h2 h3 sandboxed_world_sandbox
      blocklist_precedence_and_repeatable [OF h1 h2 sandboxed_world_sandbox]
    by blast
qed

lemma create_sandbox_frame [simp]:
  "active_sessions (snd (create_sandbox cfg sid user w)) = active_sessions w"
  "api_tokens (snd (create_sandbox cfg sid user w)) = api_tokens w"
  "ssh_keys (snd (create_sandbox cfg sid user w)) = ssh_keys w"
  "utc_clock (snd (create_sandbox cfg sid user w)) = utc_clock w"
  "wall_clock (snd (create_sandbox cfg sid user w)) = wall_clock w"
  "wall_reads (snd (create_sandbox cfg sid user w)) = wall_reads w"
  "token_source (snd (create_sandbox cfg sid user w)) = token_source w"
  "token_reads (snd (create_sandbox cfg sid user w)) = token_reads w"
  "rmtree_error (snd (create_sandbox cfg sid user w)) = rmtree_error w"
  "rmtree_calls (snd (create_sandbox cfg sid user w)) = rmtree_calls w"
  "sim_calls (snd (create_sandbox cfg sid user w)) = sim_calls w"
  by (simp_all add: create_sandbox_def case_prod_beta split: sum.splits)

lemma upper_info: "upper_ascii ''info'' = ''INFO''"
  by code_simp

lemma audit_is_audit_event: "is_audit_event ev sid (last (json_logs (audit ev sid kw w)))"
  by (simp add: is_audit_event_def audit_last upper_info)

lemma execute_command_rejected_audit:
  assumes "active_sandboxes w sid = Some sb" and "\<not> fst (is_command_safe cfg (command req))"
  shows "is_audit_event ''unsafe_command_blocked'' sid
           (last (json_logs (snd (execute_command cfg sid req w))))"
  using assms
  by (simp add: execute_command_def get_sandbox_def case_prod_beta Let_def audit_is_audit_event)

lemma execute_command_passed_audit:
  assumes "active_sandboxes w sid = Some sb" and "fst (is_command_safe cfg (command req))"
  shows "is_audit_event ''command_execution_completed'' sid
           (last (json_logs (snd (execute_command cfg sid req w))))"
  using assms
  by (simp add: execute_command_def run_command_def get_sandbox_def case_prod_beta Let_def
      audit_is_audit_event)

lemma dangerous_rejected:
  assumes "p \<in> set dangerous_patterns" and "contains p cmd"
  shows "\<not> fst (is_command_safe cfg cmd)"
proof -
  have "find (\<lambda>pattern. contains pattern cmd) dangerous_patterns \<noteq> None"
    using assms by (auto simp: find_None_iff)
  then show ?thesis
    by (auto simp: is_command_safe_def Let_def split: list.splits)
qed

text \<open>
  C2, as the code has it. The policy check reads the command string only. An invocation
  whose command string contains one of the dangerous patterns is rejected in a session
  with a sandbox: the result is \<open>FAILED\<close>, the error stream carries the reason of the
  check after the words "Command blocked: ", and the simulation is not called. The
  argument list is not inspected.
\<close>

theorem metachar_in_command_rejected:
  assumes "p \<in> set dangerous_patterns"
    and "contains p (command req)"
    and "active_sandboxes w sid \<noteq> None"
  shows "\<not> fst (is_command_safe cfg (command req))
       \<and> status (fst (execute_command cfg sid req w)) = FAILED
       \<and> stderr (fst (execute_command cfg sid req w)) =
           ''Command blocked: '' @ snd (is_command_safe cfg (command req))
       \<and> sim_calls (snd (execute_command cfg sid req w)) = sim_calls w"
proof -
  have unsafe: "\<not> fst (is_command_safe cfg (command req))"
    using assms(1,2) by (rule dangerous_rejected)
  from assms(3) obtain sb where sb: "active_sandboxes w sid = Some sb" by blast
  show ?thesis
    using unsafe by (simp add: execute_command_rejected [OF sb unsafe])
qed

theorem metachar_in_command_rejected_witness:
  "''>'' \<in> set dangerous_patterns
   \<and> contains ''>'' (command (command_request ''tok0'' ''git status > out'' []))
   \<and> active_sandboxes sandboxed_world ''tok0'' \<noteq> None
   \<and> status (fst (execute_command default_config ''tok0''
                     (command_request ''tok0'' ''git status > out'' []) sandboxed_world)) = FAILED
   \<and> stderr (fst (execute_command default_config ''tok0''
                     (command_request ''tok0'' ''git status > out'' []) sandboxed_world)) =
       ''Command blocked: '' @ snd (is_command_safe default_config
                                     (command (command_request ''tok0'' ''git status > out'' [])))
   \<and> sim_calls (snd (execute_command default_config ''tok0''
                        (command_request ''tok0'' ''git status > out'' []) sandboxed_world)) =
       sim_calls sandboxed_world"
proof -
  have h1: "''>'' \<in> set dangerous_patterns"
    by code_simp
  have h2: "contains ''>'' (command (command_request ''tok0'' ''git status > out'' []))"
    by code_simp
  show ?thesis
    using h1 h2 sandboxed_world_sandbox
      metachar_in_command_rejected [OF h1 h2 sandboxed_world_sandbox]
    by blast
qed

text \<open>
  C2 as it is stated fails: a shell metacharacter in the argument list is not seen by the
  policy check. With the command \<^verbatim>\<open>git\<close> and the arguments \<^verbatim>\<open>status ; reboot\<close> the
  invocation passes, the simulation is called, and the result is \<open>COMPLETED\<close>.
\<close>

theorem metachar_in_args_is_executed:
  "'';'' \<in> set dangerous_patterns
   \<and> '';'' \<in> set (args (command_request ''tok0'' ''git'' [''status'', '';'', ''reboot'']))
   \<and> active_sandboxes sandboxed_world ''tok0'' \<noteq> None
   \<and> status (fst (execute_command default_config ''tok0''
                     (command_request ''tok0'' ''git'' [''status'', '';'', ''reboot''])
                     sandboxed_world)) = COMPLETED
   \<and> sim_calls (snd (execute_command default_config ''tok0''
                        (command_request ''tok0'' ''git'' [''status'', '';'', ''reboot''])
                        sandboxed_world)) = [(''git'', [''status'', '';'', ''reboot''])]"
proof -
  have h1: "'';'' \<in> set dangerous_patterns"
    by code_simp
  have safe: "fst (is_command_safe default_config
                     (command (command_request ''tok0'' ''git'' [''status'', '';'', ''reboot''])))"
    using git_is_safe by (simp add: command_request_def)
  from sandboxed_world_sandbox obtain sb where sb: "active_sandboxes sandboxed_world ''tok0'' = Some sb"
    by blast
  have calls: "sim_calls sandboxed_world = []"
    by (simp add: sandboxed_world_def fresh_world_def)
  note run = execute_command_passed [OF sb safe]
  show ?thesis
    using h1 sandboxed_world_sandbox calls run(1) run(5)
    by (simp add: command_request_def)
qed

section \<open>History and audit trail of the executor\<close>

lemma inv_history_of_sandbox:
  assumes "sandbox_inv w" and "active_sandboxes w sid \<noteq> None"
  shows "command_history w sid = Some (stored_history sid w)"
  using assms by (auto simp: sandbox_inv_def stored_history_def split: option.splits)

lemma store_history_inv:
  assumes "sandbox_inv w"
  shows "sandbox_inv (store_history sid r w)"
proof (cases "command_history w sid")
  case None
  then have "store_history sid r w = w"
    by (simp add: store_history_def)
  then show ?thesis
    using assms by simp
next
  case (Some h)
  have same: "\<And>s. (command_history w s = None) = (active_sandboxes w s = None)"
    using assms by (simp add: sandbox_inv_def)
  have short: "\<And>s k. command_history w s = Some k \<Longrightarrow> length k \<le> 100"
    using assms by (simp add: sandbox_inv_def)
  have sb: "active_sandboxes w sid \<noteq> None"
    using same [of sid] Some by simp
  have new: "command_history (store_history sid r w) =
               (command_history w)(sid \<mapsto> drop (length (h @ [r]) - 100) (h @ [r]))"
    using Some by (simp add: store_history_result)
  show ?thesis
    unfolding sandbox_inv_def
  proof (intro conjI allI impI)
    fix s
    show "(command_history (store_history sid r w) s = None)
            = (active_sandboxes (store_history sid r w) s = None)"
      using sb same [of s] by (simp add: new)
  next
    fix s k
    assume "command_history (store_history sid r w) s = Some k"
    then show "length k \<le> 100"
      using short [of s k] by (auto simp: new split: if_splits)
  qed
qed

text \<open>
  C3, as the code has it. In a session that has a sandbox, the result of an invocation that
  passed the policy check is appended to the session's history, which keeps its last 100
  entries, and the audit event \<^verbatim>\<open>command_execution_completed\<close> is the last entry of the
  log. A policy rejection gives a \<open>FAILED\<close> result and the audit event
  \<^verbatim>\<open>unsafe_command_blocked\<close>, and leaves every history as it was.
\<close>

theorem outcomes_recorded:
  assumes "sandbox_inv w" and "active_sandboxes w sid \<noteq> None"
  shows "(fst (is_command_safe cfg (command req)) \<longrightarrow>
            command_history (snd (execute_command cfg sid req w)) sid =
              Some (drop (length (stored_history sid w @ [fst (execute_command cfg sid req w)]) - 100)
                         (stored_history sid w @ [fst (execute_command cfg sid req w)]))
            \<and> is_audit_event ''command_execution_completed'' sid
                 (last (json_logs (snd (execute_command cfg sid req w)))))
       \<and> (\<not> fst (is_command_safe cfg (command req)) \<longrightarrow>
            status (fst (execute_command cfg sid req w)) = FAILED
            \<and> is_audit_event ''unsafe_command_blocked'' sid
                 (last (json_logs (snd (execute_command cfg sid req w))))
            \<and> command_history (snd (execute_command cfg sid req w)) = command_history w)"
proof -
  from assms(2) obtain sb where sb: "active_sandboxes w sid = Some sb" by blast
  note h = inv_history_of_sandbox [OF assms]
  show ?thesis
  proof (cases "fst (is_command_safe cfg (command req))")
    case True
    note run = execute_command_passed [OF sb True]
    show ?thesis
      using True h run(6) execute_command_passed_audit [OF sb True] by simp
  next
    case False
    note rej = execute_command_rejected [OF sb False]
    show ?thesis
      using False rej(1) rej(6) execute_command_rejected_audit [OF sb False] by simp
  qed
qed

theorem outcomes_recorded_witness:
  "sandbox_inv sandboxed_world
   \<and> active_sandboxes sandboxed_world ''tok0'' \<noteq> None
   \<and> fst (is_command_safe default_config (command (command_request ''tok0'' ''git'' [''status''])))
   \<and> command_history (snd (execute_command default_config ''tok0''
                              (command_request ''tok0'' ''git'' [''status'']) sandboxed_world)) ''tok0'' =
        Some [fst (execute_command default_config ''tok0''
                     (command_request ''tok0'' ''git'' [''status'']) sandboxed_world)]
   \<and> is_audit_event ''command_execution_completed'' ''tok0''
        (last (json_logs (snd (execute_command default_config ''tok0''
                                 (command_request ''tok0'' ''git'' [''status'']) sandboxed_world))))
   \<and> \<not> fst (is_command_safe default_config (command (command_request ''tok0'' ''rm'' [''-rf'', ''/''])))
   \<and> status (fst (execute_command default_config ''tok0''
                     (command_request ''tok0'' ''rm'' [''-rf'', ''/'']) sandboxed_world)) = FAILED
   \<and> is_audit_event ''unsafe_command_blocked'' ''tok0''
        (last (json_logs (snd (execute_command default_config ''tok0''
                                 (command_request ''tok0'' ''rm'' [''-rf'', ''/'']) sandboxed_world))))"
proof -
  have safe: "fst (is_command_safe default_config (command (command_request ''tok0'' ''git'' [''status''])))"
    using git_is_safe by (simp add: command_request_def)
  have unsafe: "\<not> fst (is_command_safe default_config (command (command_request ''tok0'' ''rm'' [''-rf'', ''/''])))"
    by code_simp
  have empty: "stored_history ''tok0'' sandboxed_world = []"
    by (simp add: stored_history_def sandboxed_world_history)
  show ?thesis
    using safe unsafe empty sandboxed_world_inv sandboxed_world_sandbox
      outcomes_recorded [OF sandboxed_world_inv sandboxed_world_sandbox,
        of default_config "command_request ''tok0'' ''git'' [''status'']"]
      outcomes_recorded [OF sandboxed_world_inv sandboxed_world_sandbox,
        of default_config "command_request ''tok0'' ''rm'' [''-rf'', ''/'']"]
    by simp
qed

text \<open>
  C3 as it is stated fails for policy rejections: the rejected \<^verbatim>\<open>rm -rf /\<close> gives a
  \<open>FAILED\<close> result in a session that has a sandbox, and the session's history is as empty
  after it as before.
\<close>

theorem rejection_not_in_history:
  "active_sandboxes sandboxed_world ''tok0'' \<noteq> None
   \<and> command_history sandboxed_world ''tok0'' = Some []
   \<and> status (fst (execute_command default_config ''tok0''
                     (command_request ''tok0'' ''rm'' [''-rf'', ''/'']) sandboxed_world)) = FAILED
   \<and> command_history (snd (execute_command default_config ''tok0''
                              (command_request ''tok0'' ''rm'' [''-rf'', ''/'']) sandboxed_world)) ''tok0'' =
        Some []"
proof -
  have unsafe: "\<not> fst (is_command_safe default_config (command (command_request ''tok0'' ''rm'' [''-rf'', ''/''])))"
    by code_simp
  from sandboxed_world_sandbox obtain sb where sb: "active_sandboxes sandboxed_world ''tok0'' = Some sb"
    by blast
  note rej = execute_command_rejected [OF sb unsafe]
  show ?thesis
    using sandboxed_world_sandbox sandboxed_world_history rej(1) rej(6) by simp
qed

lemma get_command_history_stored:
  "get_command_history sid limit w =
     (if limit > 0 then drop (length (stored_history sid w) - nat limit) (stored_history sid w)
      else stored_history sid w)"
  by (simp add: get_command_history_def stored_history_def split: option.splits)

lemma inv_stored_history_short: "sandbox_inv w \<Longrightarrow> length (stored_history sid w) \<le> 100"
  by (auto simp: sandbox_inv_def stored_history_def split: option.splits)

text \<open>
  C8. With a limit \<open>N > 0\<close> the history returned is the last \<open>N\<close> stored entries in the
  order they were stored (all of them when fewer are stored): at most \<open>N\<close> entries and
  never more than 100. With a limit \<open>N \<le> 0\<close> it is all the stored entries. Storing a
  result appends it at the end and keeps the last 100 entries, so the oldest is the one
  evicted, and the bound of 100 entries per session is kept.
\<close>

theorem history_retrieval:
  assumes "sandbox_inv w"
  shows "(0 < N \<longrightarrow>
            get_command_history sid N w =
              drop (length (stored_history sid w) - nat N) (stored_history sid w)
            \<and> length (get_command_history sid N w) \<le> nat N
            \<and> length (get_command_history sid N w) \<le> 100)
       \<and> (N \<le> 0 \<longrightarrow> get_command_history sid N w = stored_history sid w)
       \<and> (command_history w sid \<noteq> None \<longrightarrow>
            stored_history sid (store_history sid r w) =
              drop (length (stored_history sid w @ [r]) - 100) (stored_history sid w @ [r])
            \<and> sandbox_inv (store_history sid r w))"
proof -
  have short: "length (stored_history sid w) \<le> 100"
    using assms by (rule inv_stored_history_short)
  have stored: "command_history w sid \<noteq> None \<Longrightarrow>
      stored_history sid (store_history sid r w) =
        drop (length (stored_history sid w @ [r]) - 100) (stored_history sid w @ [r])"
    by (auto simp: stored_history_def store_history_result)
  have pos: "0 < N \<Longrightarrow>
      get_command_history sid N w =
        drop (length (stored_history sid w) - nat N) (stored_history sid w)
      \<and> length (get_command_history sid N w) \<le> nat N
      \<and> length (get_command_history sid N w) \<le> 100"
    using short by (simp add: get_command_history_stored) linarith
  have all: "N \<le> 0 \<Longrightarrow> get_command_history sid N w = stored_history sid w"
    by (simp add: get_command_history_stored)
  show ?thesis
    using pos all stored store_history_inv [OF assms, of sid r] by blast
qed

lemma one_command_world_history:
  "sandbox_inv one_command_world"
  "stored_history ''tok0'' one_command_world = [first_result]"
  "command_history one_command_world ''tok0'' \<noteq> None"
proof -
  have safe: "fst (is_command_safe default_config (command (git_status ''tok0'')))"
    using git_is_safe by (simp add: git_status_def command_request_def)
  from sandboxed_world_sandbox obtain sb where sb: "active_sandboxes sandboxed_world ''tok0'' = Some sb"
    by blast
  note run = execute_command_passed [OF sb safe]
  show "sandbox_inv one_command_world"
    unfolding one_command_world_def by (rule execute_command_inv [OF sandboxed_world_inv])
  show "stored_history ''tok0'' one_command_world = [first_result]"
    using run(6) sandboxed_world_history
    by (simp add: stored_history_def one_command_world_def first_result_def)
  show "command_history one_command_world ''tok0'' \<noteq> None"
    using run(6) sandboxed_world_history by (simp add: one_command_world_def)
qed

lemma execute_command_reads:
  assumes "active_sandboxes w sid \<noteq> None"
  shows "utc_reads (snd (execute_command cfg sid req w)) =
           (if fst (is_command_safe cfg (command req)) then utc_reads w + 3 else utc_reads w + 2)"
  using assms
  by (auto simp: execute_command_def run_command_def get_sandbox_def case_prod_beta Let_def)

lemma execute_command_clock:
  "utc_clock (snd (execute_command cfg sid req w)) = utc_clock w"
  by (simp add: execute_command_def run_command_def get_sandbox_def case_prod_beta Let_def
      split: option.splits)

lemma execute_command_passed_timestamp:
  assumes "active_sandboxes w sid = Some sb" and "fst (is_command_safe cfg (command req))"
  shows "timestamp (fst (execute_command cfg sid req w)) = utc_clock w (Suc (utc_reads w))"
  using assms
  by (simp add: execute_command_def run_command_def get_sandbox_def case_prod_beta Let_def)

lemma execute_command_passed_stored:
  assumes "sandbox_inv w" and "active_sandboxes w sid \<noteq> None"
    and "fst (is_command_safe cfg (command req))"
  shows "stored_history sid (snd (execute_command cfg sid req w)) =
           drop (length (stored_history sid w @ [fst (execute_command cfg sid req w)]) - 100)
                (stored_history sid w @ [fst (execute_command cfg sid req w)])"
proof -
  from assms(2) obtain sb where sb: "active_sandboxes w sid = Some sb" by blast
  from inv_history_of_sandbox [OF assms(1,2)] obtain h where h: "command_history w sid = Some h"
    by blast
  show ?thesis
    using execute_command_passed(6) [OF sb assms(3)] h by (simp add: stored_history_def)
qed

lemma docker_is_safe: "fst (is_command_safe default_config ''docker'')"
  by code_simp

lemma terraform_is_safe: "fst (is_command_safe default_config ''terraform'')"
  by code_simp

lemma three_command_world_history:
  "sandbox_inv three_command_world"
  "stored_history ''tok0'' three_command_world = [first_result, second_result, third_result]"
  "command_history three_command_world ''tok0'' \<noteq> None"
  "stdout first_result =
     ''On branch main'' @ [CHR 0x0A] @ ''nothing to commit, working tree clean''"
  "stdout second_result =
     ''CONTAINER ID   IMAGE     COMMAND   CREATED   STATUS    PORTS     NAMES''"
  "stdout third_result = ''No changes. Infrastructure is up-to-date.''"
proof -
  note one = one_command_world_history
  have safe1: "fst (is_command_safe default_config (command (git_status ''tok0'')))"
    using git_is_safe by (simp add: git_status_def command_request_def)
  have safe2: "fst (is_command_safe default_config (command (docker_ps ''tok0'')))"
    using docker_is_safe by (simp add: docker_ps_def command_request_def)
  have safe3: "fst (is_command_safe default_config (command (terraform_plan ''tok0'')))"
    using terraform_is_safe by (simp add: terraform_plan_def command_request_def)
  have sb0: "active_sandboxes sandboxed_world ''tok0'' \<noteq> None"
    by (rule sandboxed_world_sandbox)
  have sb1: "active_sandboxes one_command_world ''tok0'' \<noteq> None"
    using sb0 by (simp add: one_command_world_def)
  have inv2: "sandbox_inv two_command_world"
    unfolding two_command_world_def by (rule execute_command_inv [OF one(1)])
  have sb2: "active_sandboxes two_command_world ''tok0'' \<noteq> None"
    using sb1 by (simp add: two_command_world_def)
  have two: "stored_history ''tok0'' two_command_world = [first_result, second_result]"
    using execute_command_passed_stored [OF one(1) sb1 safe2] one(2)
    by (simp add: two_command_world_def second_result_def)
  show "sandbox_inv three_command_world"
    unfolding three_command_world_def by (rule execute_command_inv [OF inv2])
  show three: "stored_history ''tok0'' three_command_world =
                 [first_result, second_result, third_result]"
    using execute_command_passed_stored [OF inv2 sb2 safe3] two
    by (simp add: three_command_world_def third_result_def)
  show "command_history three_command_world ''tok0'' \<noteq> None"
    using three by (auto simp: stored_history_def split: option.splits)
  have sim1: "fst (simulate_devops_command ''git'' [''status'']) =
                ''On branch main'' @ [CHR 0x0A] @ ''nothing to commit, working tree clean''"
    by code_simp
  have sim2: "fst (simulate_devops_command ''docker'' [''ps'']) =
                ''CONTAINER ID   IMAGE     COMMAND   CREATED   STATUS    PORTS     NAMES''"
    by code_simp
  have sim3: "fst (simulate_devops_command ''terraform'' [''plan'']) =
                ''No changes. Infrastructure is up-to-date.''"
    by code_simp
  from sb0 obtain b0 where b0: "active_sandboxes sandboxed_world ''tok0'' = Some b0" by blast
  from sb1 obtain b1 where b1: "active_sandboxes one_command_world ''tok0'' = Some b1" by blast
  from sb2 obtain b2 where b2: "active_sandboxes two_command_world ''tok0'' = Some b2" by blast
  show "stdout first_result =
          ''On branch main'' @ [CHR 0x0A] @ ''nothing to commit, working tree clean''"
    using execute_command_passed(2) [OF b0 safe1] sim1
    by (simp add: first_result_def git_status_def command_request_def)
  show "stdout second_result =
          ''CONTAINER ID   IMAGE     COMMAND   CREATED   STATUS    PORTS     NAMES''"
    using execute_command_passed(2) [OF b1 safe2] sim2
    by (simp add: second_result_def docker_ps_def command_request_def)
  show "stdout third_result = ''No changes. Infrastructure is up-to-date.''"
    using execute_command_passed(2) [OF b2 safe3] sim3
    by (simp add: third_result_def terraform_plan_def command_request_def)
qed

lemma run_many_frame:
  "sandbox_inv w \<Longrightarrow> sandbox_inv (run_many n w)"
  "active_sandboxes (run_many n w) = active_sandboxes w"
  "utc_clock (run_many n w) = utc_clock w"
  by (induction n) (simp_all add: execute_command_inv execute_command_clock)

lemma run_many_reads:
  "active_sandboxes w ''tok0'' \<noteq> None \<Longrightarrow> utc_reads (run_many n w) = utc_reads w + 3 * n"
proof (induction n)
  case 0
  then show ?case by simp
next
  case (Suc n)
  have safe: "fst (is_command_safe default_config (command (git_status ''tok0'')))"
    using git_is_safe by (simp add: git_status_def command_request_def)
  have sb: "active_sandboxes (run_many n w) ''tok0'' \<noteq> None"
    using Suc.prems by (simp add: run_many_frame)
  show ?case
    using Suc execute_command_reads [OF sb, of default_config "git_status ''tok0''"] safe
    by simp
qed

lemma run_many_step:
  assumes "sandbox_inv w" and "active_sandboxes w ''tok0'' \<noteq> None"
    and "length (stored_history ''tok0'' (run_many n w)) < 100"
  shows "stored_history ''tok0'' (run_many (Suc n) w) =
           stored_history ''tok0'' (run_many n w) @
             [fst (execute_command default_config ''tok0'' (git_status ''tok0'') (run_many n w))]"
proof -
  have safe: "fst (is_command_safe default_config (command (git_status ''tok0'')))"
    using git_is_safe by (simp add: git_status_def command_request_def)
  have inv: "sandbox_inv (run_many n w)"
    using assms(1) by (rule run_many_frame(1))
  have sb: "active_sandboxes (run_many n w) ''tok0'' \<noteq> None"
    using assms(2) by (simp add: run_many_frame(2))
  show ?thesis
    using execute_command_passed_stored [OF inv sb safe] assms(3) by simp
qed

lemma run_many_length:
  assumes "sandbox_inv w" and "active_sandboxes w ''tok0'' \<noteq> None"
  shows "length (stored_history ''tok0'' w) + n \<le> 100 \<Longrightarrow>
           length (stored_history ''tok0'' (run_many n w)) = length (stored_history ''tok0'' w) + n"
proof (induction n)
  case 0
  then show ?case by simp
next
  case (Suc n)
  then have len: "length (stored_history ''tok0'' (run_many n w)) =
                    length (stored_history ''tok0'' w) + n"
    by simp
  then have "length (stored_history ''tok0'' (run_many n w)) < 100"
    using Suc.prems by simp
  from run_many_step [OF assms this] show ?case
    using len by (simp del: run_many.simps)
qed

lemma run_many_timestamps:
  assumes "sandbox_inv w" and "active_sandboxes w ''tok0'' \<noteq> None"
    and "stored_history ''tok0'' w = []"
  shows "n \<le> 100 \<Longrightarrow>
           map timestamp (stored_history ''tok0'' (run_many n w)) =
             map (\<lambda>k. utc_clock w (Suc (utc_reads w + 3 * k))) [0..<n]"
proof (induction n)
  case 0
  then show ?case by (simp add: assms(3))
next
  case (Suc n)
  have safe: "fst (is_command_safe default_config (command (git_status ''tok0'')))"
    using git_is_safe by (simp add: git_status_def command_request_def)
  have "length (stored_history ''tok0'' (run_many n w)) = n"
    using run_many_length [OF assms(1,2), of n] Suc.prems by (simp add: assms(3))
  then have short: "length (stored_history ''tok0'' (run_many n w)) < 100"
    using Suc.prems by simp
  from assms(2) obtain sb where "active_sandboxes w ''tok0'' = Some sb" by blast
  then have sb: "active_sandboxes (run_many n w) ''tok0'' = Some sb"
    by (simp add: run_many_frame(2))
  have stamp: "timestamp (fst (execute_command default_config ''tok0'' (git_status ''tok0'')
                                 (run_many n w))) =
                 utc_clock w (Suc (utc_reads w + 3 * n))"
    using execute_command_passed_timestamp [OF sb safe]
    by (simp add: run_many_frame(3) run_many_reads [OF assms(2)])
  show ?case
    using Suc run_many_step [OF assms(1,2) short] stamp by (simp del: run_many.simps)
qed

lemma run_many_first:
  assumes "sandbox_inv w" and "active_sandboxes w ''tok0'' \<noteq> None"
    and "stored_history ''tok0'' w = []"
  shows "n < 100 \<Longrightarrow>
           hd (stored_history ''tok0'' (run_many (Suc n) w)) =
             fst (execute_command default_config ''tok0'' (git_status ''tok0'') w)"
proof (induction n)
  case 0
  show ?case
    using run_many_step [OF assms(1,2), of 0] by (simp add: assms(3))
next
  case (Suc n)
  have len: "length (stored_history ''tok0'' (run_many (Suc n) w)) = Suc n"
    using run_many_length [OF assms(1,2), of "Suc n"] Suc.prems by (simp add: assms(3))
  then have short: "length (stored_history ''tok0'' (run_many (Suc n) w)) < 100"
    using Suc.prems by simp
  have nonempty: "stored_history ''tok0'' (run_many (Suc n) w) \<noteq> []"
    using len by auto
  show ?case
    using Suc run_many_step [OF assms(1,2) short] nonempty by (simp del: run_many.simps)
qed

lemma full_history_world_history:
  "sandbox_inv full_history_world"
  "command_history full_history_world ''tok0'' \<noteq> None"
  "length (stored_history ''tok0'' full_history_world) = 100"
  "hd (stored_history ''tok0'' full_history_world) = first_result"
  "distinct (stored_history ''tok0'' full_history_world)"
proof -
  note inv = sandboxed_world_inv
  note sb = sandboxed_world_sandbox
  have empty: "stored_history ''tok0'' sandboxed_world = []"
    by (simp add: stored_history_def sandboxed_world_history)
  show "sandbox_inv full_history_world"
    unfolding full_history_world_def by (rule run_many_frame(1) [OF inv])
  show len: "length (stored_history ''tok0'' full_history_world) = 100"
    using run_many_length [OF inv sb, of 100] by (simp add: empty full_history_world_def)
  then show "command_history full_history_world ''tok0'' \<noteq> None"
    by (auto simp: stored_history_def split: option.splits)
  show "hd (stored_history ''tok0'' full_history_world) = first_result"
    using run_many_first [OF inv sb empty, of 99]
    by (simp add: full_history_world_def first_result_def del: run_many.simps)
  have clock: "utc_clock sandboxed_world = (\<lambda>n. 1762214400000000 + int n)"
    by (simp add: sandboxed_world_def fresh_world_def)
  have "distinct (map timestamp (stored_history ''tok0'' full_history_world))"
    using run_many_timestamps [OF inv sb empty, of 100]
    by (simp add: full_history_world_def clock distinct_map inj_on_def del: run_many.simps)
  then show "distinct (stored_history ''tok0'' full_history_world)"
    by (simp add: distinct_map)
qed

theorem history_retrieval_witness:
  "sandbox_inv three_command_world
   \<and> (0::int) < 2
   \<and> stored_history ''tok0'' three_command_world = [first_result, second_result, third_result]
   \<and> stdout first_result =
       ''On branch main'' @ [CHR 0x0A] @ ''nothing to commit, working tree clean''
   \<and> stdout second_result =
       ''CONTAINER ID   IMAGE     COMMAND   CREATED   STATUS    PORTS     NAMES''
   \<and> stdout third_result = ''No changes. Infrastructure is up-to-date.''
   \<and> get_command_history ''tok0'' 2 three_command_world = [second_result, third_result]
   \<and> length (get_command_history ''tok0'' 2 three_command_world) \<le> nat 2
   \<and> length (get_command_history ''tok0'' 2 three_command_world) \<le> 100
   \<and> (0::int) \<le> 0
   \<and> get_command_history ''tok0'' 0 three_command_world =
       [first_result, second_result, third_result]
   \<and> command_history three_command_world ''tok0'' \<noteq> None
   \<and> stored_history ''tok0'' (store_history ''tok0'' first_result three_command_world) =
       [first_result, second_result, third_result, first_result]
   \<and> sandbox_inv (store_history ''tok0'' first_result three_command_world)
   \<and> sandbox_inv full_history_world
   \<and> command_history full_history_world ''tok0'' \<noteq> None
   \<and> length (stored_history ''tok0'' full_history_world) = 100
   \<and> distinct (stored_history ''tok0'' full_history_world)
   \<and> hd (stored_history ''tok0'' full_history_world) = first_result
   \<and> stored_history ''tok0'' (store_history ''tok0'' third_result full_history_world) =
       tl (stored_history ''tok0'' full_history_world) @ [third_result]
   \<and> length (stored_history ''tok0'' (store_history ''tok0'' third_result full_history_world))
       = 100
   \<and> first_result \<notin>
       set (stored_history ''tok0'' (store_history ''tok0'' third_result full_history_world))
   \<and> sandbox_inv (store_history ''tok0'' third_result full_history_world)"
proof -
  note three = three_command_world_history
  note full = full_history_world_history
  have differ: "first_result \<noteq> third_result"
    using three(4) three(6) by auto
  obtain r h where h: "stored_history ''tok0'' full_history_world = r # h"
    using full(3) by (cases "stored_history ''tok0'' full_history_world") simp_all
  have evicted: "first_result \<notin> set (tl (stored_history ''tok0'' full_history_world))"
    using full(4) full(5) by (simp add: h)
  have dropped: "drop (length (stored_history ''tok0'' full_history_world @ [third_result]) - 100)
                   (stored_history ''tok0'' full_history_world @ [third_result]) =
                 tl (stored_history ''tok0'' full_history_world) @ [third_result]"
    using full(3) by (simp add: h)
  have kept: "length (tl (stored_history ''tok0'' full_history_world) @ [third_result]) = 100"
    using full(3) by (simp add: h)
  show ?thesis
    using three full differ evicted dropped kept
      history_retrieval [OF three(1), of 2 "''tok0''" first_result]
      history_retrieval [OF three(1), of 0 "''tok0''" first_result]
      history_retrieval [OF full(1), of 0 "''tok0''" third_result]
    by simp
qed

section \<open>The session authority\<close>

lemma create_session_response:
  "fst (create_session req user w) =
     \<lparr>success = True, resp_session_id = Some (token_source w (token_reads w)),
      message = ''Authenticated as '' @ user,
      resp_expires_at = Some (utc_clock w (utc_reads w) + hours 24)\<rparr>"
  by (simp add: create_session_def case_prod_beta Let_def)

lemma create_session_sessions:
  "active_sessions (snd (create_session req user w)) =
     (active_sessions w)(token_source w (token_reads w) \<mapsto>
        \<lparr>username = user, auth_method = req_method req,
         created_at = utc_clock w (Suc (utc_reads w)),
         expires_at = utc_clock w (utc_reads w) + hours 24,
         last_activity = utc_clock w (Suc (Suc (utc_reads w)))\<rparr>)"
  by (simp add: create_session_def case_prod_beta Let_def)

lemma create_session_frame [simp]:
  "api_tokens (snd (create_session req user w)) = api_tokens w"
  "ssh_keys (snd (create_session req user w)) = ssh_keys w"
  "active_sandboxes (snd (create_session req user w)) = active_sandboxes w"
  "command_history (snd (create_session req user w)) = command_history w"
  "dirs (snd (create_session req user w)) = dirs w"
  "utc_clock (snd (create_session req user w)) = utc_clock w"
  "utc_reads (snd (create_session req user w)) = utc_reads w + 4"
  "wall_clock (snd (create_session req user w)) = wall_clock w"
  "wall_reads (snd (create_session req user w)) = wall_reads w"
  "token_source (snd (create_session req user w)) = token_source w"
  "token_reads (snd (create_session req user w)) = Suc (token_reads w)"
  "rmtree_error (snd (create_session req user w)) = rmtree_error w"
  "rmtree_calls (snd (create_session req user w)) = rmtree_calls w"
  "sim_calls (snd (create_session req user w)) = sim_calls w"
  by (simp_all add: create_session_def case_prod_beta Let_def)



lemma authenticate_accepts:
  assumes "check_credentials req w = Inr (Some user)" and "user \<noteq> []"
  shows "authenticate req w = (Inr (fst (create_session req user w)), snd (create_session req user w))"
  using assms by (simp add: authenticate_def case_prod_beta)

lemma authenticate_rejects:
  assumes "check_credentials req w = Inr found" and "found = None \<or> found = Some []"
  shows "fst (authenticate req w) =
           Inr \<lparr>success = False, resp_session_id = None, message = ''Invalid credentials'',
                resp_expires_at = None\<rparr>"
    and "active_sessions (snd (authenticate req w)) = active_sessions w"
  using assms by (auto simp: authenticate_def)

lemma authenticate_raises:
  assumes "check_credentials req w = Inl e"
  shows "authenticate req w = (Inl e, w)"
  using assms by (simp add: authenticate_def)

lemma authenticated_iff:
  "authenticated req w \<longleftrightarrow> (\<exists>user. check_credentials req w = Inr (Some user) \<and> user \<noteq> [])"
proof (cases "check_credentials req w")
  case (Inl e)
  then show ?thesis by (simp add: authenticated_def authenticate_raises)
next
  case (Inr found)
  show ?thesis
  proof (cases "found = None \<or> found = Some []")
    case True
    then show ?thesis
      using Inr authenticate_rejects(1) [OF Inr True] by (auto simp: authenticated_def)
  next
    case False
    then obtain user where u: "found = Some user" "user \<noteq> []" by (cases found) auto
    then show ?thesis
      using Inr authenticate_accepts [of req w user]
      by (simp add: authenticated_def create_session_response)
  qed
qed

lemma validate_ssh_key_loop_None:
  "validate_ssh_key_loop keys p = None \<longleftrightarrow> (\<forall>(u, k) \<in> set keys. \<not> contains p k)"
proof (induction keys)
  case Nil
  then show ?case by simp
next
  case (Cons entry keys)
  have self: "\<And>k. contains k k"
    by (subst contains_iff) (metis append_Nil append_Nil2)
  obtain u k where entry: "entry = (u, k)" by (cases entry)
  show ?case
    using Cons.IH self by (auto simp: entry)
qed

lemma validate_ssh_key_loop_Some:
  "validate_ssh_key_loop keys p = Some u \<Longrightarrow> u \<in> fst ` set keys"
  by (induction keys) (auto split: if_splits)

text \<open>
  C1, as the code has it. With the SSH-key method, and with no empty user name in the key
  table (the loader never makes one), a provided key is accepted exactly when, stripped of
  surrounding whitespace, it occurs somewhere inside one of the stored keys. Being equal
  to a stored key is one way of occurring inside it.
\<close>

theorem ssh_key_accepted_iff_contained:
  assumes "req_method req = SSH_KEY"
    and "\<forall>(u, k) \<in> set (ssh_keys w). u \<noteq> []"
  shows "authenticated req w \<longleftrightarrow>
           (\<exists>(u, k) \<in> set (ssh_keys w). \<exists>a b. k = a @ strip (credentials req) @ b)"
proof -
  let ?p = "strip (credentials req)"
  have check: "check_credentials req w = Inr (validate_ssh_key_loop (ssh_keys w) ?p)"
    using assms(1) by (simp add: check_credentials_def validate_ssh_key_def)
  have named: "\<And>user. validate_ssh_key_loop (ssh_keys w) ?p = Some user \<Longrightarrow> user \<noteq> []"
    using assms(2) validate_ssh_key_loop_Some [of "ssh_keys w" ?p] by fastforce
  have "authenticated req w \<longleftrightarrow> validate_ssh_key_loop (ssh_keys w) ?p \<noteq> None"
    using named by (auto simp: authenticated_iff check)
  also have "\<dots> \<longleftrightarrow> (\<exists>(u, k) \<in> set (ssh_keys w). contains ?p k)"
    by (auto simp: validate_ssh_key_loop_None)
  also have "\<dots> \<longleftrightarrow> (\<exists>(u, k) \<in> set (ssh_keys w). \<exists>a b. k = a @ ?p @ b)"
    by (simp add: contains_iff)
  finally show ?thesis .
qed

theorem ssh_key_accepted_iff_contained_witness:
  "req_method \<lparr>req_method = SSH_KEY,
               credentials = ''  ssh-rsa AAAAB3NzaC1yc2EAAAADAQABAAABgQC... demo@localhost '',
               req_username = None\<rparr> = SSH_KEY
   \<and> map fst (ssh_keys fresh_world) = [''demo'']
   \<and> authenticated \<lparr>req_method = SSH_KEY,
                     credentials = ''  ssh-rsa AAAAB3NzaC1yc2EAAAADAQABAAABgQC... demo@localhost '',
                     req_username = None\<rparr> fresh_world"
proof -
  let ?req = "\<lparr>req_method = SSH_KEY,
               credentials = ''  ssh-rsa AAAAB3NzaC1yc2EAAAADAQABAAABgQC... demo@localhost '',
               req_username = None\<rparr>"
  have h1: "req_method ?req = SSH_KEY"
    by simp
  have h2: "\<forall>(u, k) \<in> set (ssh_keys fresh_world). u \<noteq> []"
    by (simp add: fresh_world_def default_ssh_keys_def)
  have stripped: "strip (credentials ?req) = ''ssh-rsa AAAAB3NzaC1yc2EAAAADAQABAAABgQC... demo@localhost''"
    by code_simp
  have "(''demo'', ''ssh-rsa AAAAB3NzaC1yc2EAAAADAQABAAABgQC... demo@localhost'') \<in> set (ssh_keys fresh_world)"
    by (simp add: fresh_world_def default_ssh_keys_def)
  moreover have "''ssh-rsa AAAAB3NzaC1yc2EAAAADAQABAAABgQC... demo@localhost''
                   = [] @ strip (credentials ?req) @ []"
    using stripped by simp
  ultimately have "\<exists>(u, k) \<in> set (ssh_keys fresh_world). \<exists>a b. k = a @ strip (credentials ?req) @ b"
    by blast
  then have "authenticated ?req fresh_world"
    using ssh_key_accepted_iff_contained [OF h1 h2] by blast
  moreover have "map fst (ssh_keys fresh_world) = [''demo'']"
    by (simp add: fresh_world_def default_ssh_keys_def)
  ultimately show ?thesis
    using h1 by blast
qed

text \<open>
  C1 as it is stated fails: the key \<^verbatim>\<open>ssh-rsa\<close> is not equal to the stored demo key, it
  only occurs inside it, and it is accepted.
\<close>

theorem substring_key_is_accepted:
  "ssh_keys fresh_world = [(''demo'', ''ssh-rsa AAAAB3NzaC1yc2EAAAADAQABAAABgQC... demo@localhost'')]
   \<and> ''ssh-rsa'' \<noteq> ''ssh-rsa AAAAB3NzaC1yc2EAAAADAQABAAABgQC... demo@localhost''
   \<and> authenticated \<lparr>req_method = SSH_KEY, credentials = ''ssh-rsa'', req_username = None\<rparr>
        fresh_world"
proof -
  have keys: "ssh_keys fresh_world =
                [(''demo'', ''ssh-rsa AAAAB3NzaC1yc2EAAAADAQABAAABgQC... demo@localhost'')]"
    by (simp add: fresh_world_def default_ssh_keys_def)
  have "validate_ssh_key_loop
          [(''demo'', ''ssh-rsa AAAAB3NzaC1yc2EAAAADAQABAAABgQC... demo@localhost'')]
          (strip ''ssh-rsa'') = Some ''demo''"
    by code_simp
  then have "check_credentials \<lparr>req_method = SSH_KEY, credentials = ''ssh-rsa'', req_username = None\<rparr>
               fresh_world = Inr (Some ''demo'')"
    by (simp add: check_credentials_def validate_ssh_key_def keys)
  then have "authenticated \<lparr>req_method = SSH_KEY, credentials = ''ssh-rsa'', req_username = None\<rparr>
               fresh_world"
    by (simp add: authenticated_iff)
  then show ?thesis
    using keys by simp
qed

lemma check_credentials_tables:
  assumes "api_tokens w' = api_tokens w" and "ssh_keys w' = ssh_keys w"
  shows "check_credentials req w' = check_credentials req w"
  using assms
  by (simp add: check_credentials_def validate_ssh_key_def validate_api_token_def
      split: AuthMethod.splits)

lemma devops_token_matches:
  "validate_api_token_loop default_api_tokens (credentials devops_login) = Inr (Some ''devops'')"
  by code_simp

lemma devops_login_checks:
  assumes "api_tokens w = default_api_tokens"
  shows "check_credentials devops_login w = Inr (Some ''devops'')"
proof -
  have "req_method devops_login = API_TOKEN"
    by (simp add: devops_login_def)
  then show ?thesis
    using assms devops_token_matches
    by (simp add: check_credentials_def validate_api_token_def)
qed


lemma devops_login_accepted:
  assumes "api_tokens w = default_api_tokens"
  shows "authenticate devops_login w =
           (Inr (fst (create_session devops_login ''devops'' w)),
            snd (create_session devops_login ''devops'' w))"
  using devops_login_checks [OF assms] by (simp add: authenticate_accepts)

lemma fresh_tokens:
  "token_source fresh_world 0 = ''tok0''" "token_source fresh_world (Suc 0) = ''tok00''"
  unfolding fresh_world_def by code_simp+

lemma validate_session_untracked:
  "active_sessions w sid = None \<Longrightarrow> validate_session sid w = (None, w)"
  by (simp add: validate_session_def)

lemma validate_session_expired:
  assumes "active_sessions w sid = Some sess" and "utc_clock w (utc_reads w) > expires_at sess"
  shows "fst (validate_session sid w) = None"
    and "active_sessions (snd (validate_session sid w)) = (active_sessions w)(sid := None)"
    and "is_audit_event ''session_expired'' sid (last (json_logs (snd (validate_session sid w))))"
    and "active_sandboxes (snd (validate_session sid w)) = active_sandboxes w"
    and "dirs (snd (validate_session sid w)) = dirs w"
  using assms
  by (simp_all add: validate_session_def case_prod_beta Let_def audit_is_audit_event)

lemma validate_session_live:
  assumes "active_sessions w sid = Some sess" and "\<not> utc_clock w (utc_reads w) > expires_at sess"
  shows "fst (validate_session sid w) = Some (sess\<lparr>last_activity := utc_clock w (Suc (utc_reads w))\<rparr>)"
    and "active_sessions (snd (validate_session sid w)) =
           (active_sessions w)(sid \<mapsto> sess\<lparr>last_activity := utc_clock w (Suc (utc_reads w))\<rparr>)"
    and "json_logs (snd (validate_session sid w)) = json_logs w"
    and "utc_reads (snd (validate_session sid w)) = Suc (Suc (utc_reads w))"
  using assms
  by (simp_all add: validate_session_def case_prod_beta Let_def)

lemma validate_session_frame [simp]:
  "api_tokens (snd (validate_session sid w)) = api_tokens w"
  "ssh_keys (snd (validate_session sid w)) = ssh_keys w"
  "active_sandboxes (snd (validate_session sid w)) = active_sandboxes w"
  "command_history (snd (validate_session sid w)) = command_history w"
  "dirs (snd (validate_session sid w)) = dirs w"
  "utc_clock (snd (validate_session sid w)) = utc_clock w"
  "wall_clock (snd (validate_session sid w)) = wall_clock w"
  "wall_reads (snd (validate_session sid w)) = wall_reads w"
  "token_source (snd (validate_session sid w)) = token_source w"
  "token_reads (snd (validate_session sid w)) = token_reads w"
  "rmtree_error (snd (validate_session sid w)) = rmtree_error w"
  "rmtree_calls (snd (validate_session sid w)) = rmtree_calls w"
  "sim_calls (snd (validate_session sid w)) = sim_calls w"
  by (simp_all add: validate_session_def case_prod_beta Let_def split: option.splits)

text \<open>
  C5. \<^verbatim>\<open>validate_session\<close> answers \<open>None\<close> for an id that is not tracked, and changes
  nothing. For a tracked session whose expiry is before the clock reading it takes, it
  answers \<open>None\<close> too, whether or not a sweep has run: it deletes the session and the audit
  event \<^verbatim>\<open>session_expired\<close> is the last entry of the log. For a tracked session that has
  not expired it stores the next clock reading as \<open>last_activity\<close> and answers with the
  session so updated.
\<close>

theorem validate_session_spec:
  "(active_sessions w sid = None \<longrightarrow> validate_session sid w = (None, w))
   \<and> (active_sessions w sid = Some sess \<and> utc_clock w (utc_reads w) > expires_at sess \<longrightarrow>
        fst (validate_session sid w) = None
        \<and> active_sessions (snd (validate_session sid w)) = (active_sessions w)(sid := None)
        \<and> is_audit_event ''session_expired'' sid
             (last (json_logs (snd (validate_session sid w)))))
   \<and> (active_sessions w sid = Some sess \<and> \<not> utc_clock w (utc_reads w) > expires_at sess \<longrightarrow>
        fst (validate_session sid w) =
          Some (sess\<lparr>last_activity := utc_clock w (Suc (utc_reads w))\<rparr>)
        \<and> active_sessions (snd (validate_session sid w)) =
            (active_sessions w)(sid \<mapsto> sess\<lparr>last_activity := utc_clock w (Suc (utc_reads w))\<rparr>))"
proof (intro conjI impI)
  assume "active_sessions w sid = None"
  then show "validate_session sid w = (None, w)"
    by (rule validate_session_untracked)
next
  assume expired: "active_sessions w sid = Some sess \<and> utc_clock w (utc_reads w) > expires_at sess"
  then have tracked: "active_sessions w sid = Some sess"
    and late: "utc_clock w (utc_reads w) > expires_at sess"
    by simp_all
  show "fst (validate_session sid w) = None"
    using tracked late by (rule validate_session_expired(1))
  show "active_sessions (snd (validate_session sid w)) = (active_sessions w)(sid := None)"
    using tracked late by (rule validate_session_expired(2))
  show "is_audit_event ''session_expired'' sid (last (json_logs (snd (validate_session sid w))))"
    using tracked late by (rule validate_session_expired(3))
next
  assume live: "active_sessions w sid = Some sess \<and> \<not> utc_clock w (utc_reads w) > expires_at sess"
  then have tracked: "active_sessions w sid = Some sess"
    and early: "\<not> utc_clock w (utc_reads w) > expires_at sess"
    by simp_all
  show "fst (validate_session sid w) =
          Some (sess\<lparr>last_activity := utc_clock w (Suc (utc_reads w))\<rparr>)"
    using tracked early by (rule validate_session_live(1))
  show "active_sessions (snd (validate_session sid w)) =
          (active_sessions w)(sid \<mapsto> sess\<lparr>last_activity := utc_clock w (Suc (utc_reads w))\<rparr>)"
    using tracked early by (rule validate_session_live(2))
qed

lemma session_world_eq:
  "session_world = snd (create_session devops_login ''devops'' fresh_world)"
  by (simp add: session_world_def devops_login_accepted fresh_world_def)

lemma session_world_facts:
  "active_sessions session_world ''tok0'' = Some tok0_session"
  "utc_reads session_world = 4"
  "utc_clock session_world n = 1762214400000000 + int n"
  "api_tokens session_world = default_api_tokens"
  "active_sandboxes session_world = Map.empty"
  "rmtree_error session_world k = None"
proof -
  have by_token: "req_method devops_login = API_TOKEN"
    by (simp add: devops_login_def)
  show "active_sessions session_world ''tok0'' = Some tok0_session"
    using fresh_tokens(1) by_token
    by (simp add: session_world_eq create_session_sessions tok0_session_def hours_def)
       (simp add: fresh_world_def)
  show "utc_reads session_world = 4"
    by (simp add: session_world_eq) (simp add: fresh_world_def)
  show "utc_clock session_world n = 1762214400000000 + int n"
    by (simp add: session_world_eq) (simp add: fresh_world_def)
  show "api_tokens session_world = default_api_tokens"
    by (simp add: session_world_eq) (simp add: fresh_world_def)
  show "active_sandboxes session_world = Map.empty"
    by (simp add: session_world_eq) (simp add: fresh_world_def)
  show "rmtree_error session_world k = None"
    by (simp add: session_world_eq) (simp add: fresh_world_def)
qed

theorem validate_session_spec_witness:
  "active_sessions fresh_world ''nope'' = None
   \<and> validate_session ''nope'' fresh_world = (None, fresh_world)
   \<and> active_sessions late_session_world ''tok0'' = Some tok0_session
   \<and> utc_clock late_session_world (utc_reads late_session_world) > expires_at tok0_session
   \<and> fst (validate_session ''tok0'' late_session_world) = None
   \<and> active_sessions (snd (validate_session ''tok0'' late_session_world)) ''tok0'' = None
   \<and> is_audit_event ''session_expired'' ''tok0''
        (last (json_logs (snd (validate_session ''tok0'' late_session_world))))
   \<and> active_sessions session_world ''tok0'' = Some tok0_session
   \<and> \<not> utc_clock session_world (utc_reads session_world) > expires_at tok0_session
   \<and> fst (validate_session ''tok0'' session_world) =
        Some (tok0_session\<lparr>last_activity := 1762214400000005\<rparr>)
   \<and> active_sessions (snd (validate_session ''tok0'' session_world)) ''tok0'' =
        Some (tok0_session\<lparr>last_activity := 1762214400000005\<rparr>)"
proof -
  have none: "active_sessions fresh_world ''nope'' = None"
    by (simp add: fresh_world_def)
  have late_tracked: "active_sessions late_session_world ''tok0'' = Some tok0_session"
    by (simp add: late_session_world_def session_world_facts)
  have late: "utc_clock late_session_world (utc_reads late_session_world) > expires_at tok0_session"
    by (simp add: late_session_world_def tok0_session_def)
  have tracked: "active_sessions session_world ''tok0'' = Some tok0_session"
    by (rule session_world_facts)
  have early: "\<not> utc_clock session_world (utc_reads session_world) > expires_at tok0_session"
    by (simp add: session_world_facts tok0_session_def)
  have next_reading: "utc_clock session_world (Suc (utc_reads session_world)) = 1762214400000005"
    by (simp add: session_world_facts)
  show ?thesis
    using none late_tracked late tracked early next_reading
      validate_session_spec [of fresh_world "''nope''" tok0_session]
      validate_session_spec [of late_session_world "''tok0''" tok0_session]
      validate_session_spec [of session_world "''tok0''" tok0_session]
    by simp
qed

section \<open>Destroying a sandbox\<close>

lemma cleanup_sandbox_unregistered:
  "active_sandboxes w sid = None \<Longrightarrow> cleanup_sandbox sid w = (False, w)"
  by (simp add: cleanup_sandbox_def)

lemma cleanup_sandbox_removed:
  assumes "active_sandboxes w sid \<noteq> None"
    and "sandbox_dir_of sid \<notin> dirs w \<or> rmtree_error w (rmtree_calls w) = None"
  shows "fst (cleanup_sandbox sid w) = True"
    and "sandbox_dir_of sid \<notin> dirs (snd (cleanup_sandbox sid w))"
    and "active_sandboxes (snd (cleanup_sandbox sid w)) = (active_sandboxes w)(sid := None)"
    and "command_history (snd (cleanup_sandbox sid w)) = (command_history w)(sid := None)"
    and "active_sessions (snd (cleanup_sandbox sid w)) = active_sessions w"
    and "is_audit_event ''sandbox_cleaned_up'' sid (last (json_logs (snd (cleanup_sandbox sid w))))"
  using assms
  by (auto simp: cleanup_sandbox_def rmtree_def case_prod_beta Let_def audit_is_audit_event)

lemma cleanup_sandbox_failed:
  assumes "active_sandboxes w sid \<noteq> None"
    and "sandbox_dir_of sid \<in> dirs w"
    and "rmtree_error w (rmtree_calls w) = Some msg"
  shows "fst (cleanup_sandbox sid w) = False"
    and "dirs (snd (cleanup_sandbox sid w)) = dirs w"
    and "active_sandboxes (snd (cleanup_sandbox sid w)) = active_sandboxes w"
    and "command_history (snd (cleanup_sandbox sid w)) = command_history w"
    and "rmtree_error (snd (cleanup_sandbox sid w)) = rmtree_error w"
    and "rmtree_calls (snd (cleanup_sandbox sid w)) = Suc (rmtree_calls w)"
    and "event (last (json_logs (snd (cleanup_sandbox sid w)))) = ''sandbox_cleanup_failed''"
    and "log_fields (last (json_logs (snd (cleanup_sandbox sid w)))) =
           [(''session_id'', VStr sid), (''error'', VStr msg)]"
  using assms
  by (auto simp: cleanup_sandbox_def rmtree_def case_prod_beta Let_def log_error_def
      log_structured_last)

text \<open>
  C7, as the code has it. \<^verbatim>\<open>cleanup_sandbox\<close> never raises: it always returns a boolean.
  For a session id with no registered sandbox it returns \<open>False\<close> and changes nothing, the
  disk included. For a registered sandbox whose directory is gone already or is removed
  without error, it returns \<open>True\<close>, the directory is absent afterwards, registration and
  history are forgotten, and a second call returns \<open>False\<close> and changes nothing. When the
  removal raises, the error is logged, \<open>False\<close> is returned, and the directory and the
  registration stay.
\<close>

theorem cleanup_sandbox_spec:
  "(active_sandboxes w sid = None \<longrightarrow> cleanup_sandbox sid w = (False, w))
   \<and> (active_sandboxes w sid \<noteq> None
        \<and> (sandbox_dir_of sid \<notin> dirs w \<or> rmtree_error w (rmtree_calls w) = None) \<longrightarrow>
        fst (cleanup_sandbox sid w) = True
        \<and> sandbox_dir_of sid \<notin> dirs (snd (cleanup_sandbox sid w))
        \<and> active_sandboxes (snd (cleanup_sandbox sid w)) sid = None
        \<and> command_history (snd (cleanup_sandbox sid w)) sid = None
        \<and> cleanup_sandbox sid (snd (cleanup_sandbox sid w)) = (False, snd (cleanup_sandbox sid w)))
   \<and> (active_sandboxes w sid \<noteq> None \<and> sandbox_dir_of sid \<in> dirs w
        \<and> rmtree_error w (rmtree_calls w) = Some msg \<longrightarrow>
        fst (cleanup_sandbox sid w) = False
        \<and> sandbox_dir_of sid \<in> dirs (snd (cleanup_sandbox sid w))
        \<and> active_sandboxes (snd (cleanup_sandbox sid w)) sid = active_sandboxes w sid
        \<and> event (last (json_logs (snd (cleanup_sandbox sid w)))) = ''sandbox_cleanup_failed'')"
proof (intro conjI impI)
  assume "active_sandboxes w sid = None"
  then show "cleanup_sandbox sid w = (False, w)"
    by (rule cleanup_sandbox_unregistered)
next
  assume ok: "active_sandboxes w sid \<noteq> None
     \<and> (sandbox_dir_of sid \<notin> dirs w \<or> rmtree_error w (rmtree_calls w) = None)"
  then have reg: "active_sandboxes w sid \<noteq> None"
    and gone: "sandbox_dir_of sid \<notin> dirs w \<or> rmtree_error w (rmtree_calls w) = None"
    by simp_all
  note removed = cleanup_sandbox_removed [OF reg gone]
  show "fst (cleanup_sandbox sid w) = True"
    by (rule removed(1))
  show "sandbox_dir_of sid \<notin> dirs (snd (cleanup_sandbox sid w))"
    by (rule removed(2))
  show forgotten: "active_sandboxes (snd (cleanup_sandbox sid w)) sid = None"
    by (simp add: removed(3))
  show "command_history (snd (cleanup_sandbox sid w)) sid = None"
    by (simp add: removed(4))
  show "cleanup_sandbox sid (snd (cleanup_sandbox sid w)) = (False, snd (cleanup_sandbox sid w))"
    using forgotten by (rule cleanup_sandbox_unregistered)
next
  assume bad: "active_sandboxes w sid \<noteq> None \<and> sandbox_dir_of sid \<in> dirs w
     \<and> rmtree_error w (rmtree_calls w) = Some msg"
  then have reg: "active_sandboxes w sid \<noteq> None"
    and there: "sandbox_dir_of sid \<in> dirs w"
    and raises: "rmtree_error w (rmtree_calls w) = Some msg"
    by simp_all
  note failed = cleanup_sandbox_failed [OF reg there raises]
  show "fst (cleanup_sandbox sid w) = False"
    by (rule failed(1))
  show "sandbox_dir_of sid \<in> dirs (snd (cleanup_sandbox sid w))"
    using there by (simp add: failed(2))
  show "active_sandboxes (snd (cleanup_sandbox sid w)) sid = active_sandboxes w sid"
    by (simp add: failed(3))
  show "event (last (json_logs (snd (cleanup_sandbox sid w)))) = ''sandbox_cleanup_failed''"
    by (rule failed(7))
qed

lemma sandboxed_world_dir: "sandbox_dir_of ''tok0'' \<in> dirs sandboxed_world"
  unfolding sandboxed_world_def
  by (rule create_sandbox_created(5) [OF tok0_file_name fresh_world_root])

lemma sandboxed_world_rmtree: "rmtree_error sandboxed_world n = None"
  by (simp add: sandboxed_world_def) (simp add: fresh_world_def)

theorem cleanup_sandbox_spec_witness:
  "active_sandboxes fresh_world ''nope'' = None
   \<and> cleanup_sandbox ''nope'' fresh_world = (False, fresh_world)
   \<and> active_sandboxes sandboxed_world ''tok0'' \<noteq> None
   \<and> rmtree_error sandboxed_world (rmtree_calls sandboxed_world) = None
   \<and> fst (cleanup_sandbox ''tok0'' sandboxed_world) = True
   \<and> sandbox_dir_of ''tok0'' \<notin> dirs (snd (cleanup_sandbox ''tok0'' sandboxed_world))
   \<and> cleanup_sandbox ''tok0'' (snd (cleanup_sandbox ''tok0'' sandboxed_world)) =
        (False, snd (cleanup_sandbox ''tok0'' sandboxed_world))
   \<and> active_sandboxes failing_rmtree_world ''tok0'' \<noteq> None
   \<and> sandbox_dir_of ''tok0'' \<in> dirs failing_rmtree_world
   \<and> rmtree_error failing_rmtree_world (rmtree_calls failing_rmtree_world) =
        Some ''[Errno 13] Permission denied''
   \<and> fst (cleanup_sandbox ''tok0'' failing_rmtree_world) = False
   \<and> event (last (json_logs (snd (cleanup_sandbox ''tok0'' failing_rmtree_world)))) =
        ''sandbox_cleanup_failed''"
proof -
  have none: "active_sandboxes fresh_world ''nope'' = None"
    by (simp add: fresh_world_def)
  have ok: "rmtree_error sandboxed_world (rmtree_calls sandboxed_world) = None"
    by (rule sandboxed_world_rmtree)
  have reg: "active_sandboxes failing_rmtree_world ''tok0'' \<noteq> None"
    using sandboxed_world_sandbox by (simp add: failing_rmtree_world_def)
  have there: "sandbox_dir_of ''tok0'' \<in> dirs failing_rmtree_world"
    using sandboxed_world_dir by (simp add: failing_rmtree_world_def)
  have raises: "rmtree_error failing_rmtree_world (rmtree_calls failing_rmtree_world) =
                  Some ''[Errno 13] Permission denied''"
    by (simp add: failing_rmtree_world_def)
  show ?thesis
    using none ok reg there raises sandboxed_world_sandbox
      cleanup_sandbox_spec [of fresh_world "''nope''" "''''"]
      cleanup_sandbox_spec [of sandboxed_world "''tok0''" "''''"]
      cleanup_sandbox_spec [of failing_rmtree_world "''tok0''" "''[Errno 13] Permission denied''"]
    by simp
qed

text \<open>
  C7 as it is stated fails: on a file system that refuses the removal, the sandbox
  directory of a registered session is still there after \<^verbatim>\<open>cleanup_sandbox\<close> has been
  called, and after it has been called a second time.
\<close>

theorem failed_removal_leaves_directory:
  "active_sandboxes failing_rmtree_world ''tok0'' \<noteq> None
   \<and> fst (cleanup_sandbox ''tok0'' failing_rmtree_world) = False
   \<and> sandbox_dir_of ''tok0'' \<in> dirs (snd (cleanup_sandbox ''tok0'' failing_rmtree_world))
   \<and> fst (cleanup_sandbox ''tok0'' (snd (cleanup_sandbox ''tok0'' failing_rmtree_world))) = False
   \<and> sandbox_dir_of ''tok0''
        \<in> dirs (snd (cleanup_sandbox ''tok0'' (snd (cleanup_sandbox ''tok0'' failing_rmtree_world))))"
proof -
  let ?w1 = "snd (cleanup_sandbox ''tok0'' failing_rmtree_world)"
  have reg: "active_sandboxes failing_rmtree_world ''tok0'' \<noteq> None"
    using sandboxed_world_sandbox by (simp add: failing_rmtree_world_def)
  have there: "sandbox_dir_of ''tok0'' \<in> dirs failing_rmtree_world"
    using sandboxed_world_dir by (simp add: failing_rmtree_world_def)
  have raises: "\<And>n. rmtree_error failing_rmtree_world n = Some ''[Errno 13] Permission denied''"
    by (simp add: failing_rmtree_world_def)
  note first = cleanup_sandbox_failed [OF reg there raises]
  have reg1: "active_sandboxes ?w1 ''tok0'' \<noteq> None"
    using reg by (simp add: first(3))
  have there1: "sandbox_dir_of ''tok0'' \<in> dirs ?w1"
    using there by (simp add: first(2))
  have raises1: "rmtree_error ?w1 (rmtree_calls ?w1) = Some ''[Errno 13] Permission denied''"
    by (simp add: first(5) raises)
  note second = cleanup_sandbox_failed [OF reg1 there1 raises1]
  show ?thesis
    using reg there1 first(1) second(1) second(2) by simp
qed

section \<open>The endpoints\<close>

lemma execute_command_env [simp]:
  "utc_clock (snd (execute_command cfg sid req w)) = utc_clock w"
  "rmtree_error (snd (execute_command cfg sid req w)) = rmtree_error w"
  "rmtree_calls (snd (execute_command cfg sid req w)) = rmtree_calls w"
  "token_source (snd (execute_command cfg sid req w)) = token_source w"
  "token_reads (snd (execute_command cfg sid req w)) = token_reads w"
  "api_tokens (snd (execute_command cfg sid req w)) = api_tokens w"
  "active_sessions (snd (execute_command cfg sid req w)) = active_sessions w"
  "dirs (snd (execute_command cfg sid req w)) = dirs w"
  by (simp_all add: execute_command_def run_command_def get_sandbox_def case_prod_beta Let_def
      split: option.splits)

lemma get_current_session_live:
  assumes "active_sessions w sid = Some sess" and "utc_clock w (utc_reads w) \<le> expires_at sess"
  shows "get_current_session sid w =
           (Inr (sess\<lparr>last_activity := utc_clock w (Suc (utc_reads w))\<rparr>),
            snd (validate_session sid w))"
proof -
  have early: "\<not> utc_clock w (utc_reads w) > expires_at sess"
    using assms(2) by simp
  show ?thesis
    using validate_session_live(1) [OF assms(1) early]
    by (simp add: get_current_session_def case_prod_beta)
qed

lemma get_current_session_untracked:
  assumes "active_sessions w sid = None"
  shows "get_current_session sid w = (Inl (HTTPException 401 ''Invalid or expired session''), w)"
  using assms by (simp add: get_current_session_def validate_session_untracked)

lemma execute_endpoint_live:
  assumes "active_sessions w sid = Some sess" and "utc_clock w (utc_reads w) \<le> expires_at sess"
    and "session_id req = sid"
  shows "execute_command_endpoint cfg sid req w =
           (Inr (fst (execute_command cfg sid req (snd (validate_session sid w)))),
            snd (execute_command cfg sid req (snd (validate_session sid w))))"
  using assms(3)
  by (simp add: execute_command_endpoint_def get_current_session_live [OF assms(1,2)]
      case_prod_beta)

lemma execute_endpoint_untracked:
  assumes "active_sessions w sid = None"
  shows "execute_command_endpoint cfg sid req w =
           (Inl (HTTPException 401 ''Invalid or expired session''), w)"
  by (simp add: execute_command_endpoint_def get_current_session_untracked [OF assms])

lemma logout_tracked:
  assumes "active_sessions w sid = Some sess"
  shows "fst (logout sid w) = True"
    and "active_sessions (snd (logout sid w)) = (active_sessions w)(sid := None)"
    and "active_sandboxes (snd (logout sid w)) = active_sandboxes w"
    and "dirs (snd (logout sid w)) = dirs w"
    and "rmtree_error (snd (logout sid w)) = rmtree_error w"
    and "rmtree_calls (snd (logout sid w)) = rmtree_calls w"
  using assms by (simp_all add: logout_def)

lemma logout_endpoint_tracked:
  assumes "active_sessions w sid = Some sess" and "active_sandboxes w sid \<noteq> None"
    and "rmtree_error w (rmtree_calls w) = None"
  shows "fst (logout_endpoint sid w) = True"
    and "sandbox_dir_of sid \<notin> dirs (snd (logout_endpoint sid w))"
    and "active_sessions (snd (logout_endpoint sid w)) sid = None"
proof -
  note out = logout_tracked [OF assms(1)]
  have endpoint: "logout_endpoint sid w = (True, snd (cleanup_sandbox sid (snd (logout sid w))))"
    using out(1) by (simp add: logout_endpoint_def case_prod_beta split: bool.splits)
  have reg: "active_sandboxes (snd (logout sid w)) sid \<noteq> None"
    using assms(2) by (simp add: out(3))
  have ok: "sandbox_dir_of sid \<notin> dirs (snd (logout sid w))
            \<or> rmtree_error (snd (logout sid w)) (rmtree_calls (snd (logout sid w))) = None"
    using assms(3) by (simp add: out(5) out(6))
  note removed = cleanup_sandbox_removed [OF reg ok]
  show "fst (logout_endpoint sid w) = True"
    by (simp add: endpoint)
  show "sandbox_dir_of sid \<notin> dirs (snd (logout_endpoint sid w))"
    using removed(2) by (simp add: endpoint)
  show "active_sessions (snd (logout_endpoint sid w)) sid = None"
    by (simp add: endpoint removed(5) out(2))
qed

lemma login_devops:
  assumes "api_tokens w = default_api_tokens"
    and "file_name (next_session_id w)"
    and "utc_clock w (utc_reads w + 4) \<le> utc_clock w (utc_reads w) + hours 24"
    and "str_path SANDBOX_ROOT \<in> dirs w"
  shows "fst (login default_config devops_login w) =
           Inr \<lparr>success = True, resp_session_id = Some (next_session_id w),
                message = ''Authenticated as devops'',
                resp_expires_at = Some (utc_clock w (utc_reads w) + hours 24)\<rparr>"
    and "\<exists>sess. active_sessions (after_login w) (next_session_id w) = Some sess
           \<and> expires_at sess = utc_clock w (utc_reads w) + hours 24"
    and "active_sandboxes (after_login w) (next_session_id w) \<noteq> None"
    and "utc_reads (after_login w) = utc_reads w + 8"
    and "utc_clock (after_login w) = utc_clock w"
    and "rmtree_error (after_login w) = rmtree_error w"
    and "rmtree_calls (after_login w) = rmtree_calls w"
proof -
  let ?sid = "next_session_id w"
  let ?w1 = "snd (create_session devops_login ''devops'' w)"
  let ?sess = "\<lparr>username = ''devops'', auth_method = req_method devops_login,
                created_at = utc_clock w (Suc (utc_reads w)),
                expires_at = utc_clock w (utc_reads w) + hours 24,
                last_activity = utc_clock w (Suc (Suc (utc_reads w)))\<rparr>"
  let ?sess' = "?sess\<lparr>last_activity := utc_clock ?w1 (Suc (utc_reads ?w1))\<rparr>"
  let ?w2 = "snd (validate_session ?sid ?w1)"
  have auth: "authenticate devops_login w = (Inr (fst (create_session devops_login ''devops'' w)), ?w1)"
    by (rule devops_login_accepted [OF assms(1)])
  have resp: "fst (create_session devops_login ''devops'' w) =
                \<lparr>success = True, resp_session_id = Some ?sid,
                 message = ''Authenticated as devops'',
                 resp_expires_at = Some (utc_clock w (utc_reads w) + hours 24)\<rparr>"
    by (simp add: create_session_response next_session_id_def)
  have tracked: "active_sessions ?w1 ?sid = Some ?sess"
    by (simp add: create_session_sessions next_session_id_def)
  have early: "\<not> utc_clock ?w1 (utc_reads ?w1) > expires_at ?sess"
    using assms(3) by simp
  note live = validate_session_live [OF tracked early]
  have named: "?sid \<noteq> []"
    using assms(2) by (auto simp: file_name_def)
  have root: "str_path SANDBOX_ROOT \<in> dirs ?w2"
    using assms(4) by simp
  note created = create_sandbox_created [OF assms(2) root,
      where cfg = default_config and user = "username ?sess'"]
  obtain sandbox_info
    where made: "fst (create_sandbox default_config ?sid (username ?sess') ?w2) = Inr sandbox_info"
    using created(6) by blast
  have login: "login default_config devops_login w =
                 (Inr (fst (create_session devops_login ''devops'' w)),
                  snd (create_sandbox default_config ?sid (username ?sess') ?w2))"
    using named made by (simp add: login_def auth resp case_prod_beta live(1))
  show "fst (login default_config devops_login w) =
           Inr \<lparr>success = True, resp_session_id = Some ?sid,
                message = ''Authenticated as devops'',
                resp_expires_at = Some (utc_clock w (utc_reads w) + hours 24)\<rparr>"
    by (simp add: login resp)
  have after: "after_login w = snd (create_sandbox default_config ?sid (username ?sess') ?w2)"
    by (simp add: after_login_def login)
  show "\<exists>sess. active_sessions (after_login w) ?sid = Some sess
           \<and> expires_at sess = utc_clock w (utc_reads w) + hours 24"
    by (simp add: after live(2))
  show "active_sandboxes (after_login w) ?sid \<noteq> None"
    unfolding after by (rule created(2))
  show "utc_reads (after_login w) = utc_reads w + 8"
    using created(4) by (simp add: after live(4))
  show "utc_clock (after_login w) = utc_clock w"
    by (simp add: after)
  show "rmtree_error (after_login w) = rmtree_error w"
    by (simp add: after)
  show "rmtree_calls (after_login w) = rmtree_calls w"
    by (simp add: after)
qed

lemma execute_endpoint_step:
  assumes "active_sessions w sid = Some sess" and "utc_clock w (utc_reads w) \<le> expires_at sess"
    and "session_id req = sid" and "active_sandboxes w sid \<noteq> None"
  shows "fst (execute_command_endpoint cfg sid req w) =
           Inr (fst (execute_command cfg sid req (snd (validate_session sid w))))"
    and "\<exists>sess'. active_sessions (snd (execute_command_endpoint cfg sid req w)) sid = Some sess'
           \<and> expires_at sess' = expires_at sess"
    and "active_sandboxes (snd (execute_command_endpoint cfg sid req w)) sid \<noteq> None"
    and "utc_reads (snd (execute_command_endpoint cfg sid req w)) =
           (if fst (is_command_safe cfg (command req)) then utc_reads w + 5 else utc_reads w + 4)"
    and "utc_clock (snd (execute_command_endpoint cfg sid req w)) = utc_clock w"
    and "rmtree_error (snd (execute_command_endpoint cfg sid req w)) = rmtree_error w"
    and "rmtree_calls (snd (execute_command_endpoint cfg sid req w)) = rmtree_calls w"
proof -
  let ?w1 = "snd (validate_session sid w)"
  note endpoint = execute_endpoint_live [OF assms(1,2,3), of cfg]
  have early: "\<not> utc_clock w (utc_reads w) > expires_at sess"
    using assms(2) by simp
  note live = validate_session_live [OF assms(1) early]
  have sandbox: "active_sandboxes ?w1 sid \<noteq> None"
    using assms(4) by simp
  show "fst (execute_command_endpoint cfg sid req w) = Inr (fst (execute_command cfg sid req ?w1))"
    by (simp add: endpoint)
  show "\<exists>sess'. active_sessions (snd (execute_command_endpoint cfg sid req w)) sid = Some sess'
           \<and> expires_at sess' = expires_at sess"
    by (simp add: endpoint live(2))
  show "active_sandboxes (snd (execute_command_endpoint cfg sid req w)) sid \<noteq> None"
    using assms(4) by (simp add: endpoint)
  show "utc_reads (snd (execute_command_endpoint cfg sid req w)) =
           (if fst (is_command_safe cfg (command req)) then utc_reads w + 5 else utc_reads w + 4)"
    by (simp add: endpoint execute_command_reads [OF sandbox] live(4))
  show "utc_clock (snd (execute_command_endpoint cfg sid req w)) = utc_clock w"
    by (simp add: endpoint)
  show "rmtree_error (snd (execute_command_endpoint cfg sid req w)) = rmtree_error w"
    by (simp add: endpoint)
  show "rmtree_calls (snd (execute_command_endpoint cfg sid req w)) = rmtree_calls w"
    by (simp add: endpoint)
qed

lemma rm_is_blocked:
  "is_command_safe default_config ''rm'' =
     (False, ''Command '' @ [CHR 0x27] @ ''rm'' @ [CHR 0x27] @ '' is blocked for security reasons'')"
  by code_simp

lemma blocked_in_message:
  "contains ''blocked''
     (''Command blocked: '' @ ''Command '' @ [CHR 0x27] @ ''rm'' @ [CHR 0x27]
        @ '' is blocked for security reasons'')"
  by code_simp

lemma passed_policy_completed:
  assumes "active_sandboxes w sid \<noteq> None" and "fst (is_command_safe cfg (command req))"
  shows "status (fst (execute_command cfg sid req w)) = COMPLETED
       \<and> exit_code (fst (execute_command cfg sid req w)) = Some 0"
proof -
  from assms(1) obtain sb where "active_sandboxes w sid = Some sb" by blast
  then show ?thesis
    using assms(2) by (simp add: execute_command_passed)
qed

text \<open>
  With the digest as credential the whole scenario goes through, from any state with the
  default token table whose sandbox root exists: the login succeeds with the next token of
  the random source as session id and an expiry 24 hours after the clock reading; and,
  provided that the token is a file name, that no clock reading of the scenario is later
  than the expiry and that the removal of the sandbox tree does not fail,
  \<^verbatim>\<open>git status\<close> is \<open>COMPLETED\<close> with exit code 0, \<^verbatim>\<open>rm -rf /\<close> is \<open>FAILED\<close> with
  "blocked" in the error stream, the sandbox directory is gone after the logout, and a
  further command under the session is answered with the error 401.
\<close>

lemma end_to_end:
  assumes "api_tokens w = default_api_tokens"
    and "file_name (next_session_id w)"
    and "\<forall>n \<le> 13. utc_clock w (utc_reads w + n) \<le> utc_clock w (utc_reads w) + hours 24"
    and "rmtree_error w (rmtree_calls w) = None"
    and "str_path SANDBOX_ROOT \<in> dirs w"
  shows "fst (login default_config devops_login w) =
           Inr \<lparr>success = True, resp_session_id = Some (next_session_id w),
                message = ''Authenticated as devops'',
                resp_expires_at = Some (utc_clock w (utc_reads w) + hours 24)\<rparr>
       \<and> (\<exists>r. fst (execute_command_endpoint default_config (next_session_id w)
                       (git_status (next_session_id w)) (after_login w)) = Inr r
              \<and> status r = COMPLETED \<and> exit_code r = Some 0)
       \<and> (\<exists>r. fst (execute_command_endpoint default_config (next_session_id w)
                       (rm_rf (next_session_id w)) (after_git_status w)) = Inr r
              \<and> status r = FAILED \<and> contains ''blocked'' (stderr r))
       \<and> fst (logout_endpoint (next_session_id w) (after_rm_rf w)) = True
       \<and> sandbox_dir_of (next_session_id w) \<notin> dirs (after_logout w)
       \<and> fst (execute_command_endpoint default_config (next_session_id w)
                 (git_status (next_session_id w)) (after_logout w)) =
           Inl (HTTPException 401 ''Invalid or expired session'')"
proof -
  let ?sid = "next_session_id w"
  let ?expiry = "utc_clock w (utc_reads w) + hours 24"
  have clock: "\<And>n. n \<le> 13 \<Longrightarrow> utc_clock w (utc_reads w + n) \<le> ?expiry"
    using assms(3) by simp
  \<comment> \<open>login\<close>
  note login = login_devops [OF assms(1,2) clock [of 4, simplified] assms(5)]
  obtain s1 where s1: "active_sessions (after_login w) ?sid = Some s1" "expires_at s1 = ?expiry"
    using login(2) by blast
  have early1: "utc_clock (after_login w) (utc_reads (after_login w)) \<le> expires_at s1"
    using clock [of 8] by (simp add: login(4) login(5) s1(2))
  \<comment> \<open>git status\<close>
  have git_sid: "session_id (git_status ?sid) = ?sid"
    by (simp add: git_status_def command_request_def)
  have git_safe: "fst (is_command_safe default_config (command (git_status ?sid)))"
    using git_is_safe by (simp add: git_status_def command_request_def)
  note git = execute_endpoint_step [OF s1(1) early1 git_sid login(3), of default_config]
  have sb1: "active_sandboxes (snd (validate_session ?sid (after_login w))) ?sid \<noteq> None"
    using login(3) by simp
  note git_run = passed_policy_completed [OF sb1 git_safe]
  have step2: "\<exists>r. fst (execute_command_endpoint default_config ?sid (git_status ?sid)
                          (after_login w)) = Inr r
                 \<and> status r = COMPLETED \<and> exit_code r = Some 0"
    using git(1) git_run by simp
  obtain s2 where s2: "active_sessions (after_git_status w) ?sid = Some s2" "expires_at s2 = ?expiry"
    using git(2) by (auto simp: after_git_status_def s1(2))
  have sb2: "active_sandboxes (after_git_status w) ?sid \<noteq> None"
    using git(3) by (simp add: after_git_status_def)
  have reads2: "utc_reads (after_git_status w) = utc_reads w + 13"
    using git(4) git_safe by (simp add: after_git_status_def login(4))
  have clock2: "utc_clock (after_git_status w) = utc_clock w"
    using git(5) by (simp add: after_git_status_def login(5))
  have early2: "utc_clock (after_git_status w) (utc_reads (after_git_status w)) \<le> expires_at s2"
    using clock [of 13] by (simp add: reads2 clock2 s2(2))
  \<comment> \<open>rm -rf /\<close>
  have rm_sid: "session_id (rm_rf ?sid) = ?sid"
    by (simp add: rm_rf_def command_request_def)
  have rm_cmd: "command (rm_rf ?sid) = ''rm''"
    by (simp add: rm_rf_def command_request_def)
  have rm_unsafe: "\<not> fst (is_command_safe default_config (command (rm_rf ?sid)))"
    by (simp add: rm_cmd rm_is_blocked)
  note rm = execute_endpoint_step [OF s2(1) early2 rm_sid sb2, of default_config]
  have "active_sandboxes (snd (validate_session ?sid (after_git_status w))) ?sid \<noteq> None"
    using sb2 by simp
  then obtain sb where sb: "active_sandboxes (snd (validate_session ?sid (after_git_status w))) ?sid = Some sb"
    by blast
  note rejected = execute_command_rejected [OF sb rm_unsafe]
  have step3: "\<exists>r. fst (execute_command_endpoint default_config ?sid (rm_rf ?sid)
                          (after_git_status w)) = Inr r
                 \<and> status r = FAILED \<and> contains ''blocked'' (stderr r)"
    using rm(1) rejected(1) rejected(3) blocked_in_message
    by (simp add: rm_cmd rm_is_blocked)
  obtain s3 where s3: "active_sessions (after_rm_rf w) ?sid = Some s3"
    using rm(2) by (auto simp: after_rm_rf_def)
  have sb3: "active_sandboxes (after_rm_rf w) ?sid \<noteq> None"
    using rm(3) by (simp add: after_rm_rf_def)
  have rmtree3: "rmtree_error (after_rm_rf w) (rmtree_calls (after_rm_rf w)) = None"
    using assms(4) rm(6) rm(7) git(6) git(7)
    by (simp add: after_rm_rf_def after_git_status_def login(6) login(7))
  \<comment> \<open>logout, and the command after it\<close>
  note out = logout_endpoint_tracked [OF s3 sb3 rmtree3]
  have gone: "sandbox_dir_of ?sid \<notin> dirs (after_logout w)"
    using out(2) by (simp add: after_logout_def)
  have untracked: "active_sessions (after_logout w) ?sid = None"
    using out(3) by (simp add: after_logout_def)
  show ?thesis
    using login(1) step2 step3 out(1) gone
      execute_endpoint_untracked [OF untracked, of default_config "git_status ?sid"]
    by simp
qed

lemma end_to_end_example:
  "api_tokens fresh_world = default_api_tokens
   \<and> next_session_id fresh_world = ''tok0''
   \<and> rmtree_error fresh_world (rmtree_calls fresh_world) = None
   \<and> fst (login default_config devops_login fresh_world) =
        Inr \<lparr>success = True, resp_session_id = Some ''tok0'',
             message = ''Authenticated as devops'',
             resp_expires_at = Some 1762300800000000\<rparr>
   \<and> (\<exists>r. fst (execute_command_endpoint default_config ''tok0'' (git_status ''tok0'')
                   (after_login fresh_world)) = Inr r
          \<and> status r = COMPLETED \<and> exit_code r = Some 0)
   \<and> (\<exists>r. fst (execute_command_endpoint default_config ''tok0'' (rm_rf ''tok0'')
                   (after_git_status fresh_world)) = Inr r
          \<and> status r = FAILED \<and> contains ''blocked'' (stderr r))
   \<and> fst (logout_endpoint ''tok0'' (after_rm_rf fresh_world)) = True
   \<and> sandbox_dir_of ''tok0'' \<notin> dirs (after_logout fresh_world)
   \<and> fst (execute_command_endpoint default_config ''tok0'' (git_status ''tok0'')
             (after_logout fresh_world)) =
       Inl (HTTPException 401 ''Invalid or expired session'')"
proof -
  have tokens: "api_tokens fresh_world = default_api_tokens"
    by (simp add: fresh_world_def)
  have sid: "next_session_id fresh_world = ''tok0''"
    using fresh_tokens(1) by (simp add: next_session_id_def) (simp add: fresh_world_def)
  have named: "file_name (next_session_id fresh_world)"
    by (simp add: sid tok0_file_name)
  have clock: "\<forall>n \<le> 13. utc_clock fresh_world (utc_reads fresh_world + n)
                 \<le> utc_clock fresh_world (utc_reads fresh_world) + hours 24"
    by (simp add: fresh_world_def hours_def)
  have removal: "rmtree_error fresh_world (rmtree_calls fresh_world) = None"
    by (simp add: fresh_world_def)
  have expiry: "utc_clock fresh_world (utc_reads fresh_world) + hours 24 = 1762300800000000"
    by (simp add: fresh_world_def hours_def)
  show ?thesis
    using tokens removal end_to_end [OF tokens named clock removal fresh_world_root]
    by (simp add: sid expiry)
qed

text \<open>
  C4. The scenario starts with a login with the API token \<^verbatim>\<open>devops\<close>, which the client
  offers as a demo token, and the token table is built from these very names. The table
  holds no name, though, but 32 hexadecimal digits of a digest of each, and the credential
  is compared with the digest: the login with \<^verbatim>\<open>devops\<close> is answered with
  "Invalid credentials" and no session, so that no step of the scenario can follow.
\<close>

theorem literal_devops_token_rejected:
  "''devops'' \<in> set client_demo_tokens
   \<and> map fst default_api_tokens = client_demo_tokens
   \<and> api_tokens fresh_world = default_api_tokens
   \<and> fst (login default_config
             \<lparr>req_method = API_TOKEN, credentials = ''devops'', req_username = None\<rparr>
             fresh_world) =
       Inr \<lparr>success = False, resp_session_id = None, message = ''Invalid credentials'',
            resp_expires_at = None\<rparr>"
proof -
  let ?req = "\<lparr>req_method = API_TOKEN, credentials = ''devops'', req_username = None\<rparr>"
  have tokens: "api_tokens fresh_world = default_api_tokens"
    by (simp add: fresh_world_def)
  have "validate_api_token_loop default_api_tokens ''devops'' = Inr None"
    by code_simp
  then have check: "check_credentials ?req fresh_world = Inr None"
    by (simp add: check_credentials_def validate_api_token_def tokens)
  have answer: "fst (authenticate ?req fresh_world) =
                  Inr \<lparr>success = False, resp_session_id = None,
                       message = ''Invalid credentials'', resp_expires_at = None\<rparr>"
    using check by (rule authenticate_rejects(1)) simp
  have "fst (login default_config ?req fresh_world) =
          Inr \<lparr>success = False, resp_session_id = None,
               message = ''Invalid credentials'', resp_expires_at = None\<rparr>"
    using answer by (simp add: login_def case_prod_beta)
  then show ?thesis
    using tokens by (simp add: client_demo_tokens_def default_api_tokens_def)
qed

section \<open>Session ids over a run of the server\<close>


lemma cleanup_sandbox_tokens [simp]:
  "token_source (snd (cleanup_sandbox sid w)) = token_source w"
  "token_reads (snd (cleanup_sandbox sid w)) = token_reads w"
  by (auto simp: cleanup_sandbox_def rmtree_def case_prod_beta Let_def
      split: option.splits sum.splits)

lemma logout_tokens [simp]:
  "token_source (snd (logout sid w)) = token_source w"
  "token_reads (snd (logout sid w)) = token_reads w"
  by (simp_all add: logout_def split: option.splits)




section \<open>What a successful authentication gives\<close>







end
